theory Spec2Isabelle
  imports Complex_Main
begin

section \<open>Exceptions\<close>

text \<open>
  The exceptions that the ceiling code raises, catches or lets through.  The string is the
  message (\<open>str(e)\<close>); \<open>OtherError\<close> stands for every exception class that no handler of
  the module names.
\<close>

datatype error =
    NoOverlapException string
  | ValueError string
  | KeyError string
  | RuntimeError string
  | IndexError string
  | TypeError string
  | AssertionError
  | OtherError string

section \<open>Subject subsampling\<close>

text \<open>
  \<open>build_subject_subsamples\<close> is \<open>tuple(range(2, len(subjects) + 1))\<close>.  A Python set is
  represented by the duplicate-free list of its elements in iteration order.
\<close>

definition build_subject_subsamples :: "'s list \<Rightarrow> nat list" where
  "build_subject_subsamples subjects = [2 ..< length subjects + 1]"

text \<open>
  \<open>itertools.combinations(subjects, num_subjects)\<close>: all subsequences of the given length,
  in lexicographic order of the positions.
\<close>

fun combinations :: "'s list \<Rightarrow> nat \<Rightarrow> 's list list" where
  "combinations xs 0 = [[]]"
| "combinations [] (Suc k) = []"
| "combinations (x # xs) (Suc k) = map ((#) x) (combinations xs k) @ combinations xs (Suc k)"

section \<open>Assemblies\<close>

text \<open>
  An assembly is seen along its \<open>neuroid\<close> axis: one column per neuroid, carrying the value
  of the subject coordinate and the data of the column.  \<open>assembly[subject_column].values\<close>
  is the list of the subject values; a boolean mask along \<open>neuroid\<close> is a \<open>filter\<close>.
\<close>

type_synonym 'd assembly = "(string \<times> 'd) list"

definition subject_values :: "'d assembly \<Rightarrow> string list" where
  "subject_values assembly = map fst assembly"

text \<open>
  \<open>set(values)\<close>: the iteration order of a Python set is not fixed by the language, so the
  function that lists a set's elements is a parameter \<open>py_set\<close>; all that is known of it is
  that it lists every value once.
\<close>

definition set_order_ok :: "(string list \<Rightarrow> string list) \<Rightarrow> bool" where
  "set_order_ok py_set \<longleftrightarrow> (\<forall>vs. distinct (py_set vs) \<and> set (py_set vs) = set vs)"

text \<open>
  \<open>iterate_subsets\<close> yields, for each combination, the selection (the value stored under the
  key \<open>subject_column\<close>) and the assembly restricted to the chosen subjects.
\<close>

definition iterate_subsets ::
  "(string list \<Rightarrow> string list) \<Rightarrow> 'd assembly \<Rightarrow> nat \<Rightarrow> (string list \<times> 'd assembly) list" where
  "iterate_subsets py_set assembly num_subjects =
     (let subjects = py_set (subject_values assembly);
          subject_combinations = combinations subjects num_subjects
      in map (\<lambda>sub_subjects.
               (sub_subjects, filter (\<lambda>(subject, _). subject \<in> set sub_subjects) assembly))
             subject_combinations)"

section \<open>Confidence interval\<close>

text \<open>
  Floating-point numbers are modelled by the reals; a NaN entry of an array is \<open>None\<close>.
  \<open>percentile_linear\<close> is numpy's default (linear-interpolation) percentile of a non-empty
  list: the value at the fractional position \<open>q / 100 * (n - 1)\<close> of the sorted data.
\<close>

definition percentile_linear :: "real list \<Rightarrow> real \<Rightarrow> real" where
  "percentile_linear xs q =
     (let s = sort xs;
          n = length s;
          pos = q / 100 * real (n - 1);
          lo = nat \<lfloor>pos\<rfloor>;
          hi = min (lo + 1) (n - 1)
      in s ! lo + (s ! hi - s ! lo) * (pos - real lo))"

text \<open>
  \<open>np.nanpercentile\<close>: a percentile outside \<open>[0, 100]\<close> is a \<open>ValueError\<close>; NaN entries are
  ignored; the percentile of no data is NaN.
\<close>

definition nanpercentile :: "real option list \<Rightarrow> real \<Rightarrow> error + real option" where
  "nanpercentile samples q =
     (if q < 0 \<or> 100 < q then Inl (ValueError ''Percentiles must be in the range [0, 100]'')
      else Inr (case List.map_filter id samples of
                  [] \<Rightarrow> None
                | x # xs \<Rightarrow> Some (percentile_linear (x # xs) q)))"

definition ci_error :: "real option list \<Rightarrow> real \<Rightarrow> real \<Rightarrow> error + (real option \<times> real option)" where
  "ci_error samples center confidence =
     (let low = 100 * (1 - confidence) / 2;
          high = 100 * 1 - ((1 - confidence) / 2)
      in case nanpercentile samples low of
           Inl e \<Rightarrow> Inl e
         | Inr confidence_below \<Rightarrow>
             (case nanpercentile samples high of
                Inl e \<Rightarrow> Inl e
              | Inr confidence_above \<Rightarrow>
                  Inr (map_option (\<lambda>b. center - b) confidence_below,
                       map_option (\<lambda>a. a - center) confidence_above)))"

section \<open>Scores\<close>

text \<open>
  A labelled array is represented by the list of its axis names, the coordinates that
  have been assigned to it, and its buffer, whose type is left open.  \<open>expand_dims\<close> puts a
  new axis of length one in front and leaves the buffer as it is.
\<close>

datatype label = Str string | Num nat

record 'v tensor =
  dims :: "string list"
  coords :: "(string \<times> label list) list"
  vals :: 'v

definition expand_dims :: "string \<Rightarrow> 'v tensor \<Rightarrow> 'v tensor" where
  "expand_dims d t = t\<lparr>dims := d # dims t\<rparr>"


text \<open>
  A Score with the aggregation coordinates \<open>center\<close> and \<open>error\<close>: its two values, the names
  of its axes, and the table of raw values attached to it as \<open>attrs['raw']\<close>.  On a Score,
  \<open>expand_dims\<close> also expands the raw table unless \<open>_apply_raw=False\<close> is passed.
\<close>

record 'v score =
  center :: real
  error :: real
  score_dims :: "string list"
  raw :: "'v tensor"

definition score_expand_dims :: "string \<Rightarrow> bool \<Rightarrow> 'v score \<Rightarrow> 'v score" where
  "score_expand_dims d apply_raw sc =
     sc\<lparr>score_dims := d # score_dims sc,
        raw := (if apply_raw then expand_dims d (raw sc) else raw sc)\<rparr>"

definition mean :: "real list \<Rightarrow> real" where
  "mean xs = sum_list xs / real (length xs)"

text \<open>The standard deviation as numpy and xarray compute it by default (\<open>ddof = 0\<close>).\<close>

definition std :: "real list \<Rightarrow> real" where
  "std xs = sqrt (mean (map (\<lambda>x. (x - mean xs)\<^sup>2) xs))"

section \<open>Holding out one subject\<close>

text \<open>The test \<open>needle in hay\<close> on strings.\<close>

fun starts_with :: "string \<Rightarrow> string \<Rightarrow> bool" where
  "starts_with hay [] = True"
| "starts_with [] (c # cs) = False"
| "starts_with (h # hs) (c # cs) = (h = c \<and> starts_with hs cs)"

fun str_contains :: "string \<Rightarrow> string \<Rightarrow> bool" where
  "str_contains [] needle = (needle = [])"
| "str_contains (h # hs) needle = (starts_with (h # hs) needle \<or> str_contains hs needle)"

text \<open>
  The two handlers of the loop over the held-out subjects: a \<open>NoOverlapException\<close> is
  ignored, a \<open>ValueError\<close> is ignored when its message contains \<open>Found array with\<close> and
  raised again otherwise; no other exception is caught.
\<close>

fun ignored :: "error \<Rightarrow> bool" where
  "ignored (NoOverlapException m) = True"
| "ignored (ValueError m) = str_contains m ''Found array with''"
| "ignored e = False"

definition get_subject_iterations :: "string list \<Rightarrow> string list" where
  "get_subject_iterations subjects = subjects"

text \<open>
  The body of the \<open>try\<close> block for one held-out subject: the subject's columns, the columns
  of the pool of the other subjects, and the metric on the two.
\<close>

definition holdout_score ::
  "('d assembly \<Rightarrow> 'd assembly \<Rightarrow> error + 'v score) \<Rightarrow> 'd assembly \<Rightarrow> string list \<Rightarrow> string
     \<Rightarrow> error + 'v score" where
  "holdout_score metric assembly subjects subject =
     (let subject_assembly = filter (\<lambda>(subject_value, _). subject_value = subject) assembly;
          subject_pool = filter (\<lambda>s. s \<noteq> subject) subjects;
          pool_assembly = filter (\<lambda>(subject_value, _). subject_value \<in> set subject_pool) assembly
      in metric pool_assembly subject_assembly)"

text \<open>
  The loop, with the list \<open>scores\<close> it appends to.  A stored score is tagged with the
  subject it was held out for, along a new axis named by \<open>subject_column\<close>.
\<close>

fun holdout_loop ::
  "string \<Rightarrow> ('d assembly \<Rightarrow> 'd assembly \<Rightarrow> error + 'v score) \<Rightarrow> 'd assembly \<Rightarrow> string list
     \<Rightarrow> string list \<Rightarrow> (string \<times> 'v score) list \<Rightarrow> error + (string \<times> 'v score) list" where
  "holdout_loop subject_column metric assembly subjects [] scores = Inr scores"
| "holdout_loop subject_column metric assembly subjects (subject # rest) scores =
     (case holdout_score metric assembly subjects subject of
        Inr score \<Rightarrow>
          holdout_loop subject_column metric assembly subjects rest
            (scores @ [(subject, score_expand_dims subject_column False score)])
      | Inl e \<Rightarrow>
          if ignored e then holdout_loop subject_column metric assembly subjects rest scores
          else Inl e)"

text \<open>
  \<open>Score.merge\<close> of no scores looks up the variable \<open>z\<close> in an empty merge and raises
  \<open>KeyError('z')\<close>, the error that \<open>collect\<close> names.  How the raw tables of the scores are
  merged into one is the parameter \<open>merge_raw\<close>.
\<close>

definition holdout_call ::
  "string \<Rightarrow> (string list \<Rightarrow> string list) \<Rightarrow> ('v tensor list \<Rightarrow> 'v tensor)
     \<Rightarrow> ('d assembly \<Rightarrow> 'd assembly \<Rightarrow> error + 'v score) \<Rightarrow> 'd assembly \<Rightarrow> error + 'v score" where
  "holdout_call subject_column py_set merge_raw metric assembly =
     (let subjects = py_set (subject_values assembly);
          iterate_subjects = get_subject_iterations subjects
      in case holdout_loop subject_column metric assembly subjects iterate_subjects [] of
           Inl e \<Rightarrow> Inl e
         | Inr [] \<Rightarrow> Inl (KeyError ''z'')
         | Inr (sc # scs) \<Rightarrow>
             (let scores = sc # scs;
                  centers = map (\<lambda>(subject, score). center score) scores;
                  err = std centers
              in Inr \<lparr>center = mean centers,
                      error = err,
                      score_dims = remove1 subject_column (score_dims (snd sc)),
                      raw = merge_raw (map (\<lambda>(subject, score). raw score) scores)\<rparr>))"

text \<open>
  For the statements about the loop: a subject is \<open>nonfatal\<close> when its \<open>try\<close> block ends in a
  score or in an ignored exception, and \<open>usable_scores\<close> lists the tagged scores of the
  subjects that yield one, in iteration order.
\<close>

definition nonfatal ::
  "('d assembly \<Rightarrow> 'd assembly \<Rightarrow> error + 'v score) \<Rightarrow> 'd assembly \<Rightarrow> string list \<Rightarrow> string \<Rightarrow> bool" where
  "nonfatal metric assembly subjects subject =
     (case holdout_score metric assembly subjects subject of
        Inl e \<Rightarrow> ignored e
      | Inr score \<Rightarrow> True)"

definition usable_scores ::
  "string \<Rightarrow> ('d assembly \<Rightarrow> 'd assembly \<Rightarrow> error + 'v score) \<Rightarrow> 'd assembly \<Rightarrow> string list
     \<Rightarrow> string list \<Rightarrow> (string \<times> 'v score) list" where
  "usable_scores subject_column metric assembly subjects iterate_subjects =
     concat (map (\<lambda>subject.
        case holdout_score metric assembly subjects subject of
          Inl e \<Rightarrow> []
        | Inr score \<Rightarrow> [(subject, score_expand_dims subject_column False score)])
      iterate_subjects)"

section \<open>Collecting the scores of all subject subsets\<close>

text \<open>The name \<open>f'sub_{key}'\<close> of the axis that records the chosen subset.\<close>

definition sub_axis :: "string \<Rightarrow> string" where
  "sub_axis subject_column = ''sub_'' @ subject_column"

text \<open>
  \<open>str(selection)\<close> for a tuple of strings, which prints every string with \<open>repr\<close>: in
  single quotes, or in double quotes when the string has a single quote and no double
  quote, with a backslash before every backslash and every quote of the chosen kind.  The
  escapes of \<open>repr\<close> for characters that are not printable are not written out: subject
  names are taken to be printable.
\<close>

definition quoted :: "string \<Rightarrow> string" where
  "quoted s =
     (let quote = (if CHR 0x27 \<in> set s \<and> CHR 0x22 \<notin> set s then CHR 0x22 else CHR 0x27)
      in [quote]
         @ concat (map (\<lambda>c. if c = CHR 0x5C \<or> c = quote then [CHR 0x5C, c] else [c]) s)
         @ [quote])"

fun comma_separated :: "string list \<Rightarrow> string" where
  "comma_separated [] = []"
| "comma_separated [x] = x"
| "comma_separated (x # y # zs) = x @ '', '' @ comma_separated (y # zs)"

fun str_tuple :: "string list \<Rightarrow> string" where
  "str_tuple [] = ''()''"
| "str_tuple [x] = ''('' @ quoted x @ '',)''"
| "str_tuple xs = ''('' @ comma_separated (map quoted xs) @ '')''"









section \<open>Extrapolating the ceiling of one neuroid\<close>

text \<open>The saturating curve that is fitted.  The model is over the reals: for \<open>tau0 = 0\<close>
  numpy divides by zero and yields NaN or an infinity, which the reals do not have, so the
  statements about \<open>v\<close> below are for \<open>tau0 \<noteq> 0\<close>.\<close>

definition v :: "real \<Rightarrow> real \<Rightarrow> real \<Rightarrow> real" where
  "v x v0 tau0 = v0 * (1 - exp (- x / tau0))"

text \<open>
  The collaborators from numpy and scipy.  A generator is a value of type \<open>'g\<close>;
  \<open>RandomState seed\<close> is a new generator, \<open>choice rng a\<close> is \<open>rng.choice(a, size=len(a),
  replace=True)\<close> and returns the sample with the generator's next state; \<open>curve_fit f xdata
  ydata bounds\<close> returns the fitted parameters or raises (\<open>RuntimeError\<close> when the optimal
  parameters are not found).  In a bound, \<open>None\<close> is an infinite bound; in \<open>ydata\<close>, \<open>None\<close>
  is NaN.
\<close>

record 'g externals =
  RandomState :: "nat \<Rightarrow> 'g"
  choice :: "'g \<Rightarrow> real list \<Rightarrow> real list \<times> 'g"
  curve_fit :: "(real \<Rightarrow> real \<Rightarrow> real \<Rightarrow> real) \<Rightarrow> nat list \<Rightarrow> real option list
                 \<Rightarrow> real option list \<times> real option list \<Rightarrow> error + real \<times> real"

text \<open>
  The generator objects that exist, in the order of their creation.  Creating a generator
  appends it; an object is named by its position.
\<close>

type_synonym 'g world = "'g list"

text \<open>
  The table of one neuroid: its axes with their lengths, the values of the coordinate
  \<open>num_subjects\<close> (which all neuroids of a collected table share), and one row for each pair
  of a \<open>num_subjects\<close> level and a subset label, holding the values along \<open>split\<close>.
  \<open>None\<close> is NaN; a pair without a row is all NaN.
\<close>

record row =
  row_num_subjects :: nat
  row_sub_subject :: string
  row_splits :: "real option list"

record ceilings =
  table_axes :: "(string \<times> nat) list"
  num_subjects_values :: "nat list"
  table_rows :: "row list"

definition table_dims :: "ceilings \<Rightarrow> string list" where
  "table_dims ceilings = map fst (table_axes ceilings)"

text \<open>\<open>squeeze\<close> removes every axis of length one; its coordinate stays as a scalar.\<close>

definition squeeze :: "ceilings \<Rightarrow> ceilings" where
  "squeeze ceilings =
     ceilings\<lparr>table_axes := filter (\<lambda>(name, size). size \<noteq> 1) (table_axes ceilings)\<rparr>"

definition np_mean :: "real list \<Rightarrow> real option" where
  "np_mean xs = (if xs = [] then None else Some (mean xs))"

text \<open>\<open>np.median\<close> of a list; it is only applied to non-empty lists here.\<close>

definition median :: "real list \<Rightarrow> real" where
  "median xs =
     (let s = sort xs; n = length s
      in if odd n then s ! (n div 2) else (s ! (n div 2 - 1) + s ! (n div 2)) / 2)"

text \<open>
  One pass of the inner loop, for one \<open>num_subjects\<close> level.  Selecting a level removes the
  \<open>num_subjects\<close> axis; \<open>dropna\<close> needs the subset axis and drops every subset label with a
  NaN; the \<open>assert\<close> compares the remaining axes; the draw moves the generator on.
\<close>

definition bootstrapped_score ::
  "'g externals \<Rightarrow> string \<Rightarrow> ceilings \<Rightarrow> nat \<Rightarrow> 'g \<Rightarrow> (error + real option) \<times> 'g" where
  "bootstrapped_score ext subject_column ceilings num_subjects rng =
     (let num_scores_dims = removeAll ''num_subjects'' (table_dims ceilings);
          num_scores = filter (\<lambda>r. row_num_subjects r = num_subjects \<and> None \<notin> set (row_splits r))
                         (table_rows ceilings)
      in if sub_axis subject_column \<notin> set num_scores_dims
         then (Inl (ValueError ''dimension not found''), rng)
         else if set num_scores_dims \<noteq> {sub_axis subject_column, ''split''}
         then (Inl AssertionError, rng)
         else (let choices = concat (map (\<lambda>r. List.map_filter id (row_splits r)) num_scores);
                   drawn = choice ext rng choices
               in (Inr (np_mean (fst drawn)), snd drawn)))"

text \<open>The inner loop over the levels of one bootstrap round, with the list it appends to.\<close>

fun bootstrap_round ::
  "'g externals \<Rightarrow> string \<Rightarrow> ceilings \<Rightarrow> nat list \<Rightarrow> 'g \<Rightarrow> real option list
     \<Rightarrow> (error + real option list) \<times> 'g" where
  "bootstrap_round ext subject_column ceilings [] rng bootstrapped_scores =
     (Inr bootstrapped_scores, rng)"
| "bootstrap_round ext subject_column ceilings (num_subjects # rest) rng bootstrapped_scores =
     (case bootstrapped_score ext subject_column ceilings num_subjects rng of
        (Inl e, rng') \<Rightarrow> (Inl e, rng')
      | (Inr score, rng') \<Rightarrow>
          bootstrap_round ext subject_column ceilings rest rng' (bootstrapped_scores @ [score]))"

definition fit :: "'g externals \<Rightarrow> nat list \<Rightarrow> real option list \<Rightarrow> error + real \<times> real" where
  "fit ext subject_subsamples bootstrapped_scores =
     curve_fit ext v subject_subsamples bootstrapped_scores ([Some 0, None], [Some 1, None])"

fun is_RuntimeError :: "error \<Rightarrow> bool" where
  "is_RuntimeError (RuntimeError m) = True"
| "is_RuntimeError e = False"

text \<open>
  The loop over the bootstrap rounds: a round whose fit raises \<open>RuntimeError\<close> is left out,
  any other exception ends the loop.  A kept entry is the round's number with \<open>v0\<close> and
  \<open>tau0\<close>.
\<close>

fun bootstrap_loop ::
  "'g externals \<Rightarrow> string \<Rightarrow> ceilings \<Rightarrow> nat list \<Rightarrow> nat list \<Rightarrow> 'g \<Rightarrow> (nat \<times> real \<times> real) list
     \<Rightarrow> (error + (nat \<times> real \<times> real) list) \<times> 'g" where
  "bootstrap_loop ext subject_column ceilings subject_subsamples [] rng bootstrap_params =
     (Inr bootstrap_params, rng)"
| "bootstrap_loop ext subject_column ceilings subject_subsamples (bootstrap # rest) rng bootstrap_params =
     (case bootstrap_round ext subject_column ceilings subject_subsamples rng [] of
        (Inl e, rng') \<Rightarrow> (Inl e, rng')
      | (Inr bootstrapped_scores, rng') \<Rightarrow>
          (case fit ext subject_subsamples bootstrapped_scores of
             Inr params \<Rightarrow>
               bootstrap_loop ext subject_column ceilings subject_subsamples rest rng'
                 (bootstrap_params @ [(bootstrap, params)])
           | Inl e \<Rightarrow>
               if is_RuntimeError e
               then bootstrap_loop ext subject_column ceilings subject_subsamples rest rng'
                      bootstrap_params
               else (Inl e, rng')))"

text \<open>\<open>merge_data_arrays\<close> of an empty list raises \<open>KeyError('z')\<close>.\<close>

definition merge_data_arrays :: "'a list \<Rightarrow> error + 'a list" where
  "merge_data_arrays data_arrays = (if data_arrays = [] then Inl (KeyError ''z'') else Inr data_arrays)"

definition asymptote_threshold :: real where
  "asymptote_threshold = 5 / 10000"

definition interpolation_xs :: "nat list" where
  "interpolation_xs = [0 ..< 1000]"

definition ys :: "(nat \<times> real \<times> real) list \<Rightarrow> real list list" where
  "ys bootstrap_params =
     map (\<lambda>(bootstrap, v0, tau0). map (\<lambda>x. v (real x) v0 tau0) interpolation_xs) bootstrap_params"

definition median_ys :: "(nat \<times> real \<times> real) list \<Rightarrow> real list" where
  "median_ys bootstrap_params =
     map (\<lambda>x. median (map (\<lambda>y. y ! x) (ys bootstrap_params))) [0 ..< length interpolation_xs]"

definition np_diff :: "real list \<Rightarrow> real list" where
  "np_diff a = map (\<lambda>i. a ! (i + 1) - a ! i) [0 ..< length a - 1]"

definition diffs :: "(nat \<times> real \<times> real) list \<Rightarrow> real list" where
  "diffs bootstrap_params = np_diff (median_ys bootstrap_params)"

text \<open>\<open>np.where(diffs < asymptote_threshold)[0].min()\<close>: the minimum of no indices is a
  \<open>ValueError\<close>.\<close>

definition end_x :: "(nat \<times> real \<times> real) list \<Rightarrow> error + nat" where
  "end_x bootstrap_params =
     (case filter (\<lambda>i. diffs bootstrap_params ! i < asymptote_threshold)
                  [0 ..< length (diffs bootstrap_params)] of
        [] \<Rightarrow> Inl (ValueError ''zero-size array to reduction operation minimum which has no identity'')
      | i # is \<Rightarrow> Inr (fold min is i))"

text \<open>
  The Score of one neuroid: the values at the aggregation coordinates \<open>center\<close>,
  \<open>error_low\<close> and \<open>error_high\<close>, and the attributes \<open>raw\<close>, \<open>bootstrapped_params\<close> and
  \<open>endpoint_x\<close>.
\<close>

record neuroid_score =
  ceiling_center :: real
  error_low :: "real option"
  error_high :: "real option"
  raw_ceilings :: ceilings
  bootstrapped_params :: "(nat \<times> real \<times> real) list"
  endpoint_x :: nat

text \<open>The part of \<open>extrapolate_neuroid\<close> after the loop (``find endpoint and error'', ``put
  together'').\<close>

definition find_endpoint_and_error ::
  "ceilings \<Rightarrow> (nat \<times> real \<times> real) list \<Rightarrow> error + neuroid_score" where
  "find_endpoint_and_error ceilings params =
     (case merge_data_arrays params of
        Inl e \<Rightarrow> Inl e
      | Inr bootstrap_params \<Rightarrow>
          (case end_x bootstrap_params of
             Inl e \<Rightarrow> Inl e
           | Inr endpoint \<Rightarrow>
               (let center = median (map (\<lambda>(bootstrap, v0, tau0). v0) bootstrap_params)
                in case ci_error (map (\<lambda>y. Some (y ! endpoint)) (ys bootstrap_params)) center (95 / 100) of
                     Inl e \<Rightarrow> Inl e
                   | Inr (low, high) \<Rightarrow>
                       Inr \<lparr>ceiling_center = center, error_low = low, error_high = high,
                            raw_ceilings = ceilings, bootstrapped_params = bootstrap_params,
                            endpoint_x = endpoint\<rparr>)))"

text \<open>
  \<open>extrapolate_neuroid\<close>.  The levels are the values of the coordinate \<open>num_subjects\<close>;
  when \<open>num_subjects\<close> is not an axis of the table (it had a single level and was squeezed
  away) the values are a 0-d array, and building a set of them raises \<open>TypeError\<close>.  Then
  \<open>rng = RandomState(0)\<close> creates a new generator object, the loop draws from it, and the
  object keeps the state the draws leave behind.
\<close>

definition extrapolate_neuroid ::
  "'g externals \<Rightarrow> string \<Rightarrow> nat \<Rightarrow> 'g world \<Rightarrow> ceilings \<Rightarrow> (error + neuroid_score) \<times> 'g world" where
  "extrapolate_neuroid ext subject_column num_bootstraps world ceilings =
     (if ''num_subjects'' \<notin> set (table_dims ceilings)
      then (Inl (TypeError ''iteration over a 0-d array''), world)
      else
        (let subject_subsamples = sort (remdups (num_subjects_values ceilings));
             rng = length world;
             world1 = world @ [RandomState ext 0];
             (looped, g) = bootstrap_loop ext subject_column ceilings subject_subsamples
                             [0 ..< num_bootstraps] (world1 ! rng) [];
             world2 = world1[rng := g]
         in case looped of
              Inl e \<Rightarrow> (Inl e, world2)
            | Inr bootstrap_params \<Rightarrow> (find_endpoint_and_error ceilings bootstrap_params, world2)))"

text \<open>
  For the statements about the endpoint: the median across the rounds of the fitted curves
  at \<open>x\<close>, and its forward difference.
\<close>

definition median_curve :: "(nat \<times> real \<times> real) list \<Rightarrow> nat \<Rightarrow> real" where
  "median_curve params x = median (map (\<lambda>(bootstrap, v0, tau0). v (real x) v0 tau0) params)"

definition forward_difference :: "(nat \<times> real \<times> real) list \<Rightarrow> nat \<Rightarrow> real" where
  "forward_difference params x = median_curve params (x + 1) - median_curve params x"

text \<open>The pairs kept by the loop of \<open>extrapolate_neuroid\<close>, or the exception that ends it or
  keeps it from starting.\<close>

definition fitted_params ::
  "'g externals \<Rightarrow> string \<Rightarrow> nat \<Rightarrow> ceilings \<Rightarrow> error + (nat \<times> real \<times> real) list" where
  "fitted_params ext subject_column num_bootstraps ceilings =
     (if ''num_subjects'' \<notin> set (table_dims ceilings)
      then Inl (TypeError ''iteration over a 0-d array'')
      else fst (bootstrap_loop ext subject_column ceilings
                  (sort (remdups (num_subjects_values ceilings)))
                  [0 ..< num_bootstraps] (RandomState ext 0) []))"

text \<open>The per-round curve values at \<open>x\<close>, the samples that \<open>ci_error\<close> receives.\<close>

definition curve_values :: "(nat \<times> real \<times> real) list \<Rightarrow> nat \<Rightarrow> real list" where
  "curve_values params x = map (\<lambda>(bootstrap, v0, tau0). v (real x) v0 tau0) params"

section \<open>Extrapolating all neuroids\<close>

text \<open>
  A labelled array with its coordinates: each coordinate has a name, the axes it lies on
  and its values.  \<open>da_values\<close> is the buffer.
\<close>

record 'v data_array =
  da_dims :: "string list"
  da_coords :: "(string \<times> string list \<times> label list) list"
  da_values :: 'v

text \<open>
  What \<open>extrapolate\<close> reads off the Score of a neuroid: the Score itself, its attribute
  \<open>bootstrapped_params\<close> (axes \<open>bootstrap\<close> and \<open>param\<close>) and its attribute \<open>endpoint_x\<close>
  (no axis).
\<close>

definition score_array :: "neuroid_score \<Rightarrow> real option list data_array" where
  "score_array sc =
     \<lparr>da_dims = [''aggregation''],
      da_coords = [(''aggregation'', [''aggregation''],
                    [Str ''center'', Str ''error_low'', Str ''error_high''])],
      da_values = [Some (ceiling_center sc), error_low sc, error_high sc]\<rparr>"

definition params_array :: "neuroid_score \<Rightarrow> real list list data_array" where
  "params_array sc =
     \<lparr>da_dims = [''bootstrap'', ''param''],
      da_coords = [(''bootstrap'', [''bootstrap''],
                    map (\<lambda>(bootstrap, v0, tau0). Num bootstrap) (bootstrapped_params sc)),
                   (''param'', [''param''], [Str ''v0'', Str ''tau0''])],
      da_values = map (\<lambda>(bootstrap, v0, tau0). [v0, tau0]) (bootstrapped_params sc)\<rparr>"

definition endpoint_array :: "neuroid_score \<Rightarrow> nat data_array" where
  "endpoint_array sc = \<lparr>da_dims = [], da_coords = [], da_values = endpoint_x sc\<rparr>"

text \<open>
  One neuroid of the collected table (\<open>ceilings.isel(neuroid=[i])\<close>): the values of the
  coordinates that lie on the \<open>neuroid\<close> axis, and the table, whose \<open>neuroid\<close> axis has length
  one.
\<close>

record neuroid =
  neuroid_meta :: "(string \<times> label) list"
  neuroid_table :: ceilings

text \<open>
  \<open>add_neuroid_meta\<close> puts a \<open>neuroid\<close> axis of length one in front and copies the source's
  coordinates on that axis.  The buffer becomes the list of its slices along \<open>neuroid\<close>.
\<close>

definition add_neuroid_meta :: "'v data_array \<Rightarrow> neuroid \<Rightarrow> 'v list data_array" where
  "add_neuroid_meta target source =
     \<lparr>da_dims = ''neuroid'' # da_dims target,
      da_coords = da_coords target
        @ map (\<lambda>(coord, value). (coord, [''neuroid''], [value])) (neuroid_meta source),
      da_values = [da_values target]\<rparr>"

text \<open>
  \<open>_coords_match\<close>: for every element, the coordinates of the axis \<open>dim\<close> (here \<open>axis\<close>) are walked as
  triples of name, axes and values, and the comparison takes the second component, and the
  third when \<open>match_values\<close> is set.
\<close>

definition merge_coords ::
  "'v data_array \<Rightarrow> string \<Rightarrow> bool \<Rightarrow> (string list \<times> label list) list" where
  "merge_coords element axis match_values =
     map (\<lambda>(coord, key, value). if match_values then (key, value) else (key, []))
       (filter (\<lambda>(coord, key, value). key = [axis]) (da_coords element))"

fun coords_match :: "'v data_array list \<Rightarrow> string \<Rightarrow> bool \<Rightarrow> bool" where
  "coords_match [] axis match_values = True"
| "coords_match (first # rest) axis match_values =
     list_all (\<lambda>element. merge_coords first axis match_values = merge_coords element axis match_values)
       rest"

text \<open>The values of a coordinate in every element; a missing coordinate is a \<open>KeyError\<close>.\<close>

fun coord_values :: "'v data_array list \<Rightarrow> string \<Rightarrow> error + label list" where
  "coord_values [] coord = Inr []"
| "coord_values (element # rest) coord =
     (case map_of (da_coords element) coord of
        None \<Rightarrow> Inl (KeyError coord)
      | Some (key, value) \<Rightarrow>
          (case coord_values rest coord of
             Inl e \<Rightarrow> Inl e
           | Inr values \<Rightarrow> Inr (value @ values)))"

fun merged_coords ::
  "'v data_array list \<Rightarrow> (string \<times> string list \<times> label list) list
     \<Rightarrow> error + (string \<times> string list \<times> label list) list" where
  "merged_coords elements [] = Inr []"
| "merged_coords elements ((coord, key, value) # others) =
     (case coord_values elements coord of
        Inl e \<Rightarrow> Inl e
      | Inr values \<Rightarrow>
          (case merged_coords elements others of
             Inl e \<Rightarrow> Inl e
           | Inr merged \<Rightarrow> Inr ((coord, key, values) # merged)))"

text \<open>
  \<open>merge\<close>: the elements are concatenated along the axis \<open>on\<close>, which is the first axis in
  every use.  Reading \<open>elements[0]\<close> of no elements is an \<open>IndexError\<close>.
\<close>

definition merge :: "'v list data_array list \<Rightarrow> string \<Rightarrow> error + 'v list data_array" where
  "merge elements on =
     (case elements of
        [] \<Rightarrow> Inl (IndexError ''tuple index out of range'')
      | first # rest \<Rightarrow>
          (let dims = da_dims first
           in if \<not> list_all (\<lambda>element. da_dims element = dims) rest then Inl AssertionError
              else if on \<notin> set dims then Inl (ValueError ''tuple.index(x): x not in tuple'')
              else if \<not> coords_match elements on False then Inl AssertionError
              else if \<not> list_all (\<lambda>axis. coords_match elements axis True)
                         (filter (\<lambda>axis. axis \<noteq> on) (remdups dims))
              then Inl AssertionError
              else (case merged_coords elements
                           (filter (\<lambda>(coord, key, value). on \<in> set key) (da_coords first)) of
                      Inl e \<Rightarrow> Inl e
                    | Inr on_coords \<Rightarrow>
                        Inr \<lparr>da_dims = dims,
                             da_coords =
                               filter (\<lambda>(coord, key, value). on \<notin> set key) (da_coords first)
                               @ on_coords,
                             da_values = concat (map da_values elements)\<rparr>)))"

fun is_KeyError :: "error \<Rightarrow> bool" where
  "is_KeyError (KeyError m) = True"
| "is_KeyError e = False"

text \<open>
  The loop of \<open>extrapolate\<close> over the neuroids, with the three lists it appends to.  The
  table of a neuroid is squeezed before it is extrapolated.  A neuroid whose extrapolation
  raises \<open>KeyError\<close> is left out; any other exception ends the loop.
\<close>

fun extrapolate_loop ::
  "'g externals \<Rightarrow> string \<Rightarrow> nat \<Rightarrow> neuroid list \<Rightarrow> 'g world
     \<Rightarrow> real option list list data_array list \<times> real list list list data_array list
        \<times> nat list data_array list
     \<Rightarrow> (error + real option list list data_array list \<times> real list list list data_array list
                  \<times> nat list data_array list) \<times> 'g world" where
  "extrapolate_loop ext subject_column num_bootstraps [] world acc = (Inr acc, world)"
| "extrapolate_loop ext subject_column num_bootstraps (neuroid_ceiling # rest) world acc =
     (case extrapolate_neuroid ext subject_column num_bootstraps world
             (squeeze (neuroid_table neuroid_ceiling)) of
        (Inr extrapolated_ceiling, world') \<Rightarrow>
          (case acc of
             (neuroid_ceilings, bootstrap_params, endpoint_xs) \<Rightarrow>
               extrapolate_loop ext subject_column num_bootstraps rest world'
                 (neuroid_ceilings
                    @ [add_neuroid_meta (score_array extrapolated_ceiling) neuroid_ceiling],
                  bootstrap_params
                    @ [add_neuroid_meta (params_array extrapolated_ceiling) neuroid_ceiling],
                  endpoint_xs
                    @ [add_neuroid_meta (endpoint_array extrapolated_ceiling) neuroid_ceiling]))
      | (Inl e, world') \<Rightarrow>
          if is_KeyError e
          then extrapolate_loop ext subject_column num_bootstraps rest world' acc
          else (Inl e, world'))"

text \<open>
  The median along \<open>neuroid\<close> of a buffer of rows, column by column; on floating-point data
  xarray skips NaN.
\<close>

definition nanmedian :: "real option list \<Rightarrow> real option" where
  "nanmedian xs =
     (case List.map_filter id xs of [] \<Rightarrow> None | z # zs \<Rightarrow> Some (median (z # zs)))"

definition columns :: "'a list list \<Rightarrow> 'a list list" where
  "columns rows = (case rows of [] \<Rightarrow> [] | r # rs \<Rightarrow> map (\<lambda>j. map (\<lambda>row. row ! j) (r # rs)) [0 ..< length r])"

text \<open>The aggregated ceiling with its attributes.\<close>

record ceiling =
  ceiling_values :: "real option list"
  ceiling_bootstrapped_params :: "real list list"
  ceiling_endpoint_x :: real
  ceiling_raw :: "real option list list data_array"

definition aggregate_neuroid_ceilings ::
  "real option list list data_array \<Rightarrow> real list list list data_array \<Rightarrow> nat list data_array
     \<Rightarrow> ceiling" where
  "aggregate_neuroid_ceilings neuroid_ceilings bootstrap_params endpoint_xs =
     \<lparr>ceiling_values = map nanmedian (columns (da_values neuroid_ceilings)),
      ceiling_bootstrapped_params =
        map (\<lambda>per_bootstrap. map median (columns per_bootstrap))
          (columns (da_values bootstrap_params)),
      ceiling_endpoint_x = median (map real (da_values endpoint_xs)),
      ceiling_raw = neuroid_ceilings\<rparr>"

definition extrapolate ::
  "'g externals \<Rightarrow> string \<Rightarrow> nat \<Rightarrow> 'g world \<Rightarrow> neuroid list \<Rightarrow> (error + ceiling) \<times> 'g world" where
  "extrapolate ext subject_column num_bootstraps world ceilings =
     (case extrapolate_loop ext subject_column num_bootstraps ceilings world ([], [], []) of
        (Inl e, world') \<Rightarrow> (Inl e, world')
      | (Inr (neuroid_ceilings, bootstrap_params, endpoint_xs), world') \<Rightarrow>
          (case merge neuroid_ceilings ''neuroid'' of
             Inl e \<Rightarrow> Inl e
           | Inr neuroid_ceilings \<Rightarrow>
               (case merge bootstrap_params ''neuroid'' of
                  Inl e \<Rightarrow> Inl e
                | Inr bootstrap_params \<Rightarrow>
                    (case merge endpoint_xs ''neuroid'' of
                       Inl e \<Rightarrow> Inl e
                     | Inr endpoint_xs \<Rightarrow>
                         Inr (aggregate_neuroid_ceilings neuroid_ceilings bootstrap_params
                                endpoint_xs))),
           world'))"

section \<open>Example inputs\<close>

text \<open>
  A generator that counts its draws and returns the array it is given; a fit that rejects
  NaN, finds no parameters when a mean is negative and returns \<open>v0 = 0.5\<close> and
  \<open>tau0 = 10000\<close> otherwise; and the squeezed table of a neuroid with three subjects: three
  subsets at level 2 and one at level 3, two splits each.
\<close>

definition example_externals :: "nat externals" where
  "example_externals =
     \<lparr>RandomState = (\<lambda>seed. seed),
      choice = (\<lambda>rng a. (a, rng + 1)),
      curve_fit = (\<lambda>f xdata ydata bounds.
        if list_ex (\<lambda>y. y = None) ydata
        then Inl (ValueError ''array must not contain infs or NaNs'')
        else if list_ex (\<lambda>y. case y of None \<Rightarrow> False | Some r \<Rightarrow> r < 0) ydata
        then Inl (RuntimeError ''Optimal parameters not found'')
        else Inr (1 / 2, 10000))\<rparr>"

definition example_ceilings :: ceilings where
  "example_ceilings =
     \<lparr>table_axes = [(''sub_subject'', 4), (''num_subjects'', 2), (''split'', 2)],
      num_subjects_values = [2, 3],
      table_rows =
        [\<lparr>row_num_subjects = 2, row_sub_subject = str_tuple [''A'', ''B''],
          row_splits = [Some (1 / 10000), Some (1 / 10000)]\<rparr>,
         \<lparr>row_num_subjects = 2, row_sub_subject = str_tuple [''A'', ''C''],
          row_splits = [Some (1 / 10000), Some (1 / 10000)]\<rparr>,
         \<lparr>row_num_subjects = 2, row_sub_subject = str_tuple [''B'', ''C''],
          row_splits = [Some (1 / 10000), Some (1 / 10000)]\<rparr>,
         \<lparr>row_num_subjects = 3, row_sub_subject = str_tuple [''A'', ''B'', ''C''],
          row_splits = [Some (3 / 20000), Some (3 / 20000)]\<rparr>]\<rparr>"

text \<open>
  Two neuroids of one collected table over three subjects, before \<open>squeeze\<close>: the first
  has the table above, the second has negative scores at level 2, on which the example
  fit finds no parameters.
\<close>

definition example_neuroid :: neuroid where
  "example_neuroid =
     \<lparr>neuroid_meta = [(''neuroid_id'', Str ''n1'')],
      neuroid_table =
        \<lparr>table_axes = [(''sub_subject'', 4), (''num_subjects'', 2), (''split'', 2), (''neuroid'', 1)],
         num_subjects_values = [2, 3],
         table_rows = table_rows example_ceilings\<rparr>\<rparr>"

definition unfit_neuroid :: neuroid where
  "unfit_neuroid =
     \<lparr>neuroid_meta = [(''neuroid_id'', Str ''n2'')],
      neuroid_table =
        \<lparr>table_axes = [(''sub_subject'', 4), (''num_subjects'', 2), (''split'', 2), (''neuroid'', 1)],
         num_subjects_values = [2, 3],
         table_rows =
           [\<lparr>row_num_subjects = 2, row_sub_subject = str_tuple [''A'', ''B''],
             row_splits = [Some (- (1 / 10)), Some (- (1 / 10))]\<rparr>,
            \<lparr>row_num_subjects = 2, row_sub_subject = str_tuple [''A'', ''C''],
             row_splits = [Some (- (1 / 10)), Some (- (1 / 10))]\<rparr>,
            \<lparr>row_num_subjects = 2, row_sub_subject = str_tuple [''B'', ''C''],
             row_splits = [Some (- (1 / 10)), Some (- (1 / 10))]\<rparr>,
            \<lparr>row_num_subjects = 3, row_sub_subject = str_tuple [''A'', ''B'', ''C''],
             row_splits = [Some (1 / 10), Some (1 / 10)]\<rparr>]\<rparr>\<rparr>"


text \<open>A fit that returns \<open>v0 = 3\<close> and \<open>tau0 = 1000\<close>, whatever the bounds.\<close>

definition growing_externals :: "nat externals" where
  "growing_externals =
     \<lparr>RandomState = (\<lambda>seed. seed),
      choice = (\<lambda>rng a. (a, rng + 1)),
      curve_fit = (\<lambda>f xdata ydata bounds. Inr (3, 1000))\<rparr>"

text \<open>
  A generator that counts its draws and draws one position of the array every time (the
  position is the count, or the first position when the array is shorter); a fit that
  returns the first mean as \<open>v0\<close>, with \<open>tau0 = 0.0001\<close>; and a squeezed table with different
  scores.
\<close>

definition resampling_externals :: "nat externals" where
  "resampling_externals =
     \<lparr>RandomState = (\<lambda>seed. seed),
      choice = (\<lambda>rng a. (replicate (length a) (hd (drop rng a @ a)), rng + 1)),
      curve_fit = (\<lambda>f xdata ydata bounds.
        case ydata of
          [] \<Rightarrow> Inl (ValueError ''empty data'')
        | y # rest \<Rightarrow>
            (case y of
               None \<Rightarrow> Inl (ValueError ''array must not contain infs or NaNs'')
             | Some r \<Rightarrow> Inr (r, 1 / 10000)))\<rparr>"

definition spread_ceilings :: ceilings where
  "spread_ceilings =
     \<lparr>table_axes = [(''sub_subject'', 4), (''num_subjects'', 2), (''split'', 2)],
      num_subjects_values = [2, 3],
      table_rows =
        [\<lparr>row_num_subjects = 2, row_sub_subject = str_tuple [''A'', ''B''],
          row_splits = [Some (2 / 10), Some (4 / 10)]\<rparr>,
         \<lparr>row_num_subjects = 2, row_sub_subject = str_tuple [''A'', ''C''],
          row_splits = [Some (6 / 10), Some (8 / 10)]\<rparr>,
         \<lparr>row_num_subjects = 2, row_sub_subject = str_tuple [''B'', ''C''],
          row_splits = [Some (5 / 10), Some (7 / 10)]\<rparr>,
         \<lparr>row_num_subjects = 3, row_sub_subject = str_tuple [''A'', ''B'', ''C''],
          row_splits = [Some (3 / 10), Some (9 / 10)]\<rparr>]\<rparr>"

text \<open>The result of \<open>extrapolate_neuroid\<close> for a neuroid, which does not depend on the
  generators that exist.\<close>

definition neuroid_result :: "'g externals \<Rightarrow> string \<Rightarrow> nat \<Rightarrow> neuroid \<Rightarrow> error + neuroid_score" where
  "neuroid_result ext subject_column num_bootstraps u =
     (case fitted_params ext subject_column num_bootstraps (squeeze (neuroid_table u)) of
        Inl e \<Rightarrow> Inl e
      | Inr params \<Rightarrow> find_endpoint_and_error (squeeze (neuroid_table u)) params)"




section \<open>Properties of the subsampler\<close>

lemma length_combinations: "length (combinations xs k) = length xs choose k"
  by (induction xs k rule: combinations.induct) simp_all

lemma combinations_elem:
  "c \<in> set (combinations xs k) \<Longrightarrow> length c = k \<and> set c \<subseteq> set xs \<and> (distinct xs \<longrightarrow> distinct c)"
proof (induction xs k arbitrary: c rule: combinations.induct)
  case (1 xs)
  then show ?case by simp
next
  case (2 k)
  then show ?case by simp
next
  case (3 x xs k)
  from "3.prems" consider d where "c = x # d" "d \<in> set (combinations xs k)"
    | "c \<in> set (combinations xs (Suc k))" by auto
  then show ?case
  proof cases
    case 1
    with "3.IH"(1) [of d] show ?thesis by auto
  next
    case 2
    with "3.IH"(2) [of c] show ?thesis by auto
  qed
qed

lemma distinct_combinations_sets:
  "distinct xs \<Longrightarrow> distinct (map set (combinations xs k))"
proof (induction xs k rule: combinations.induct)
  case (1 xs)
  then show ?case by simp
next
  case (2 k)
  then show ?case by simp
next
  case (3 x xs k)
  have notin: "x \<notin> set c" if "c \<in> set (combinations xs j)" for c j
    using that combinations_elem [of c xs j] "3.prems" by auto
  have inj: "inj_on (\<lambda>c. insert x (set c)) (set (combinations xs k))"
  proof (rule inj_onI)
    fix a b
    assume a: "a \<in> set (combinations xs k)" and b: "b \<in> set (combinations xs k)"
      and eq: "insert x (set a) = insert x (set b)"
    have "set a = set b"
      using eq notin [OF a] notin [OF b] by (auto simp: insert_eq_iff)
    moreover have "distinct (map set (combinations xs k))"
      using "3.IH"(1) "3.prems" by simp
    ultimately show "a = b"
      using a b by (meson distinct_map inj_onD)
  qed
  have d1: "distinct (map (\<lambda>c. insert x (set c)) (combinations xs k))"
  proof -
    have "distinct (combinations xs k)"
      using "3.IH"(1) "3.prems" by (simp add: distinct_map)
    then show ?thesis using inj by (simp add: distinct_map)
  qed
  have d2: "distinct (map set (combinations xs (Suc k)))"
    using "3.IH"(2) "3.prems" by simp
  have disj: "(\<lambda>c. insert x (set c)) ` set (combinations xs k) \<inter> set ` set (combinations xs (Suc k)) = {}"
  proof (rule ccontr)
    assume "\<not> ?thesis"
    then obtain a b where b: "b \<in> set (combinations xs (Suc k))" and "insert x (set a) = set b"
      by auto
    then have "x \<in> set b" by auto
    with notin [OF b] show False by simp
  qed
  show ?case using d1 d2 disj by (simp add: comp_def)
qed

lemma count_combinations:
  "distinct xs \<Longrightarrow> y \<in> set xs \<Longrightarrow> 0 < k \<Longrightarrow>
   length (filter (\<lambda>c. y \<in> set c) (combinations xs k)) = (length xs - 1) choose (k - 1)"
proof (induction xs k rule: combinations.induct)
  case (1 xs)
  then show ?case by simp
next
  case (2 k)
  then show ?case by simp
next
  case (3 x xs k)
  have notin: "x \<notin> set c" if "c \<in> set (combinations xs j)" for c j
    using that combinations_elem [of c xs j] "3.prems" by auto
  show ?case
  proof (cases "y = x")
    case True
    have "filter (\<lambda>c. y \<in> set c) (combinations xs (Suc k)) = []"
      using notin True by (auto simp: filter_empty_conv)
    then show ?thesis using True
      by (simp add: filter_map comp_def length_combinations)
  next
    case False
    with "3.prems" have y: "y \<in> set xs" and d: "distinct xs" by auto
    then obtain n where n: "length xs = Suc n" by (cases xs) auto
    have second: "length (filter (\<lambda>c. y \<in> set c) (combinations xs (Suc k))) = n choose k"
      using "3.IH"(2) [OF d y] n by simp
    have first: "length (filter (\<lambda>c. y \<in> set c) (map ((#) x) (combinations xs k)))
        = length (filter (\<lambda>c. y \<in> set c) (combinations xs k))"
      using False by (simp add: filter_map comp_def)
    show ?thesis
    proof (cases k)
      case 0
      then show ?thesis using second n False by simp
    next
      case (Suc j)
      then have "length (filter (\<lambda>c. y \<in> set c) (combinations xs k)) = n choose j"
        using "3.IH"(1) [OF d y] n by simp
      then show ?thesis using second first n Suc by simp
    qed
  qed
qed

text \<open>
  Claim C6.  For a subject set of size \<open>N \<ge> 3\<close> the subsample sizes are exactly
  \<open>2, 3, \<dots>, N\<close>, and for each such size \<open>k\<close> the subsampler yields exactly \<open>C(N, k)\<close>
  subsets, mutually distinct as sets, each of \<open>k\<close> subjects of the assembly, and every
  subject lies in the same number \<open>C(N - 1, k - 1)\<close> of them.
\<close>

theorem subsample_sizes_and_subsets:
  assumes "set_order_ok py_set"
    and "subjects = py_set (subject_values assembly)"
    and "N = length subjects"
    and "3 \<le> N"
  shows "length (build_subject_subsamples subjects) = N - 1
    \<and> (\<forall>i < N - 1. build_subject_subsamples subjects ! i = i + 2)
    \<and> (\<forall>k \<in> set (build_subject_subsamples subjects).
          length (iterate_subsets py_set assembly k) = N choose k
        \<and> distinct (map (set \<circ> fst) (iterate_subsets py_set assembly k))
        \<and> (\<forall>sel \<in> set (iterate_subsets py_set assembly k).
              card (set (fst sel)) = k \<and> set (fst sel) \<subseteq> set subjects)
        \<and> (\<forall>x \<in> set subjects.
              length (filter (\<lambda>sel. x \<in> set (fst sel)) (iterate_subsets py_set assembly k))
                = (N - 1) choose (k - 1)))"
proof -
  have d: "distinct subjects"
    using assms(1,2) by (simp add: set_order_ok_def)
  have fsts: "map fst (iterate_subsets py_set assembly k) = combinations subjects k" for k
    using assms(2) by (simp add: iterate_subsets_def Let_def comp_def)
  have sizes: "length (build_subject_subsamples subjects) = N - 1"
    using assms(3,4) by (simp add: build_subject_subsamples_def)
  have nth: "\<forall>i < N - 1. build_subject_subsamples subjects ! i = i + 2"
    using assms(3,4) by (simp add: build_subject_subsamples_def del: upt_Suc)
  have per_k: "length (iterate_subsets py_set assembly k) = N choose k
        \<and> distinct (map (set \<circ> fst) (iterate_subsets py_set assembly k))
        \<and> (\<forall>sel \<in> set (iterate_subsets py_set assembly k).
              card (set (fst sel)) = k \<and> set (fst sel) \<subseteq> set subjects)
        \<and> (\<forall>x \<in> set subjects.
              length (filter (\<lambda>sel. x \<in> set (fst sel)) (iterate_subsets py_set assembly k))
                = (N - 1) choose (k - 1))"
    if k: "k \<in> set (build_subject_subsamples subjects)" for k
  proof -
    have kpos: "0 < k" using k by (auto simp: build_subject_subsamples_def)
    have l: "length (iterate_subsets py_set assembly k) = N choose k"
      using length_combinations [of subjects k] fsts [of k] assms(3)
      by (metis length_map)
    have "distinct (map set (map fst (iterate_subsets py_set assembly k)))"
      using distinct_combinations_sets [OF d, of k] fsts [of k] by simp
    then have dd: "distinct (map (set \<circ> fst) (iterate_subsets py_set assembly k))"
      by simp
    have el: "card (set (fst sel)) = k \<and> set (fst sel) \<subseteq> set subjects"
      if "sel \<in> set (iterate_subsets py_set assembly k)" for sel
    proof -
      have "fst sel \<in> set (combinations subjects k)"
        using that fsts [of k] by (metis image_eqI set_map)
      then show ?thesis
        using combinations_elem [of "fst sel" subjects k] d by (simp add: distinct_card)
    qed
    have cnt: "length (filter (\<lambda>sel. x \<in> set (fst sel)) (iterate_subsets py_set assembly k))
                = (N - 1) choose (k - 1)" if x: "x \<in> set subjects" for x
    proof -
      have "length (filter (\<lambda>sel. x \<in> set (fst sel)) (iterate_subsets py_set assembly k))
          = length (filter (\<lambda>c. x \<in> set c) (map fst (iterate_subsets py_set assembly k)))"
        by (simp add: filter_map comp_def)
      then show ?thesis
        using count_combinations [OF d x kpos] fsts [of k] assms(3) by simp
    qed
    show ?thesis using l dd el cnt by blast
  qed
  show ?thesis using sizes nth per_k by blast
qed

theorem subsample_sizes_and_subsets_witness:
  "set_order_ok remdups
   \<and> 3 \<le> length (remdups (subject_values [(''A'', ()), (''B'', ()), (''A'', ()), (''C'', ())]))
   \<and> 2 \<in> set (build_subject_subsamples (remdups (subject_values [(''A'', ()), (''B'', ()), (''A'', ()), (''C'', ())])))
   \<and> length (iterate_subsets remdups [(''A'', ()), (''B'', ()), (''A'', ()), (''C'', ())] 2) = 3
   \<and> ([''B'', ''C''], [(''B'', ()), (''C'', ())])
        \<in> set (iterate_subsets remdups [(''A'', ()), (''B'', ()), (''A'', ()), (''C'', ())] 2)
   \<and> ''A'' \<in> set (remdups (subject_values [(''A'', ()), (''B'', ()), (''A'', ()), (''C'', ())]))
   \<and> length (filter (\<lambda>sel. ''A'' \<in> set (fst sel))
        (iterate_subsets remdups [(''A'', ()), (''B'', ()), (''A'', ()), (''C'', ())] 2)) = 2"
proof -
  have ok: "set_order_ok remdups"
    by (simp add: set_order_ok_def)
  have s: "remdups (subject_values [(''A'', ()), (''B'', ()), (''A'', ()), (''C'', ())]) = [''B'', ''A'', ''C'']"
    by (simp add: subject_values_def)
  have n: "3 \<le> length (remdups (subject_values [(''A'', ()), (''B'', ()), (''A'', ()), (''C'', ())]))"
    by (simp add: s)
  have k: "2 \<in> set (build_subject_subsamples (remdups (subject_values [(''A'', ()), (''B'', ()), (''A'', ()), (''C'', ())])))"
    by (simp add: s build_subject_subsamples_def)
  have m: "([''B'', ''C''], [(''B'', ()), (''C'', ())])
        \<in> set (iterate_subsets remdups [(''A'', ()), (''B'', ()), (''A'', ()), (''C'', ())] 2)"
    by (simp add: iterate_subsets_def s numeral_2_eq_2)
  have a: "''A'' \<in> set (remdups (subject_values [(''A'', ()), (''B'', ()), (''A'', ()), (''C'', ())]))"
    by (simp add: s)
  let ?a = "[(''A'', ()), (''B'', ()), (''A'', ()), (''C'', ())] :: unit assembly"
  let ?subjects = "remdups (subject_values ?a)"
  have "\<forall>k \<in> set (build_subject_subsamples ?subjects).
          length (iterate_subsets remdups ?a k) = length ?subjects choose k
        \<and> (\<forall>x \<in> set ?subjects.
              length (filter (\<lambda>sel. x \<in> set (fst sel)) (iterate_subsets remdups ?a k))
                = (length ?subjects - 1) choose (k - 1))"
    using subsample_sizes_and_subsets [OF ok refl refl n] by blast
  with k a have "length (iterate_subsets remdups ?a 2) = length ?subjects choose 2
     \<and> length (filter (\<lambda>sel. ''A'' \<in> set (fst sel)) (iterate_subsets remdups ?a 2))
                = (length ?subjects - 1) choose (2 - 1)"
    by blast
  moreover have "length ?subjects choose 2 = 3" "(length ?subjects - 1) choose (2 - 1) = 2"
    by (simp_all add: s choose_two)
  ultimately show ?thesis
    using ok n k m a by simp
qed

section \<open>Properties of the confidence interval\<close>

lemma percentile_linear_pair:
  "a \<le> b \<Longrightarrow> 0 \<le> q \<Longrightarrow> q < 100 \<Longrightarrow> percentile_linear [a, b] q = a + (b - a) * (q / 100)"
  by (simp add: percentile_linear_def Let_def floor_eq_iff)

text \<open>
  Claim C1.  On the samples \<open>[0, 100]\<close> around the center \<open>50\<close> the 2.5th percentile is
  \<open>2.5\<close> and the 97.5th is \<open>97.5\<close>, so the distances the claim describes are \<open>47.5\<close> and
  \<open>47.5\<close>; \<open>ci_error\<close> returns \<open>47.5\<close> and \<open>49.975\<close>, the distance to the 99.975th
  percentile, since \<open>100 * 1 - ((1 - confidence) / 2)\<close> is \<open>100 - 0.025\<close>.
\<close>

theorem ci_error_upper_percentile:
  "ci_error [Some 0, Some 100] 50 (95 / 100) = Inr (Some (475 / 10), Some (49975 / 1000))
   \<and> nanpercentile [Some 0, Some 100] (25 / 10) = Inr (Some (25 / 10))
   \<and> nanpercentile [Some 0, Some 100] (975 / 10) = Inr (Some (975 / 10))
   \<and> nanpercentile [Some 0, Some 100] (99975 / 1000) = Inr (Some (99975 / 1000))"
  by (simp add: ci_error_def nanpercentile_def List.map_filter_def percentile_linear_pair)

section \<open>Properties of the held-out subject ceiling\<close>

lemma holdout_loop_nonfatal:
  "\<forall>s \<in> set its. nonfatal metric assembly subjects s \<Longrightarrow>
   holdout_loop col metric assembly subjects its acc
     = Inr (acc @ usable_scores col metric assembly subjects its)"
proof (induction its arbitrary: acc)
  case Nil
  then show ?case by (simp add: usable_scores_def)
next
  case (Cons s its)
  then have rest: "\<forall>s \<in> set its. nonfatal metric assembly subjects s"
    and here: "nonfatal metric assembly subjects s" by simp_all
  show ?case
  proof (cases "holdout_score metric assembly subjects s")
    case (Inl e)
    with here have "ignored e" by (simp add: nonfatal_def)
    with Inl Cons.IH [OF rest] show ?thesis by (simp add: usable_scores_def)
  next
    case (Inr sc)
    with Cons.IH [OF rest] show ?thesis by (simp add: usable_scores_def)
  qed
qed

lemma holdout_loop_fatal:
  "\<forall>s \<in> set pre. nonfatal metric assembly subjects s \<Longrightarrow>
   holdout_score metric assembly subjects s = Inl e \<Longrightarrow> \<not> ignored e \<Longrightarrow>
   holdout_loop col metric assembly subjects (pre @ s # post) acc = Inl e"
proof (induction pre arbitrary: acc)
  case Nil
  then show ?case by simp
next
  case (Cons p pre)
  then have rest: "\<forall>s \<in> set pre. nonfatal metric assembly subjects s"
    and here: "nonfatal metric assembly subjects p" by simp_all
  show ?case
  proof (cases "holdout_score metric assembly subjects p")
    case (Inl e')
    with here have "ignored e'" by (simp add: nonfatal_def)
    with Inl Cons.IH [OF rest Cons.prems(2,3)] show ?thesis by simp
  next
    case (Inr sc)
    with Cons.IH [OF rest Cons.prems(2,3)] show ?thesis by simp
  qed
qed

lemma usable_scores_subjects:
  "map fst (usable_scores col metric assembly subjects its)
     = filter (\<lambda>s. \<exists>sc. holdout_score metric assembly subjects s = Inr sc) its"
  by (induction its) (auto simp: usable_scores_def split: sum.splits)

lemma usable_scores_mem:
  "(s, tagged) \<in> set (usable_scores col metric assembly subjects its) \<longleftrightarrow>
   s \<in> set its \<and>
   (\<exists>sc. holdout_score metric assembly subjects s = Inr sc \<and> tagged = score_expand_dims col False sc)"
  unfolding usable_scores_def by (force split: sum.splits)

lemma score_expand_dims_fields:
  "center (score_expand_dims d b sc) = center sc"
  "error (score_expand_dims d b sc) = error sc"
  "score_dims (score_expand_dims d b sc) = d # score_dims sc"
  "raw (score_expand_dims d False sc) = raw sc"
  "raw (score_expand_dims d True sc) = expand_dims d (raw sc)"
  by (simp_all add: score_expand_dims_def)

lemma usable_scores_empty:
  "\<forall>s \<in> set its. \<exists>e. holdout_score metric assembly subjects s = Inl e \<Longrightarrow>
   usable_scores col metric assembly subjects its = []"
  by (induction its) (auto simp: usable_scores_def)

lemma usable_scores_all:
  "\<forall>s \<in> set its. \<exists>sc. holdout_score metric assembly subjects s = Inr sc \<Longrightarrow>
   map fst (usable_scores col metric assembly subjects its) = its"
  by (induction its) (auto simp: usable_scores_def)

lemma mean_constant:
  "xs \<noteq> [] \<Longrightarrow> \<forall>x \<in> set xs. x = c \<Longrightarrow> mean xs = c"
proof -
  assume ne: "xs \<noteq> []" and all: "\<forall>x \<in> set xs. x = c"
  have "sum_list xs = real (length xs) * c"
    using all by (induction xs) (simp_all add: algebra_simps)
  then show ?thesis using ne by (simp add: mean_def)
qed

lemma std_constant:
  "xs \<noteq> [] \<Longrightarrow> \<forall>x \<in> set xs. x = c \<Longrightarrow> std xs = 0"
proof -
  assume ne: "xs \<noteq> []" and all: "\<forall>x \<in> set xs. x = c"
  have m: "mean xs = c" using mean_constant [OF ne all] .
  have "mean (map (\<lambda>x. (x - c)\<^sup>2) xs) = 0"
    by (rule mean_constant) (use ne all in auto)
  then show ?thesis by (simp add: std_def m)
qed

lemma holdout_call_usable:
  assumes "\<forall>s \<in> set (py_set (subject_values assembly)).
             nonfatal metric assembly (py_set (subject_values assembly)) s"
    and "usable_scores col metric assembly (py_set (subject_values assembly))
           (py_set (subject_values assembly)) = sc # scs"
  shows "holdout_call col py_set merge_raw metric assembly =
     Inr \<lparr>center = mean (map (\<lambda>(subject, score). center score) (sc # scs)),
          error = std (map (\<lambda>(subject, score). center score) (sc # scs)),
          score_dims = remove1 col (score_dims (snd sc)),
          raw = merge_raw (map (\<lambda>(subject, score). raw score) (sc # scs))\<rparr>"
  using holdout_loop_nonfatal [OF assms(1), of col "[]"] assms(2)
  by (simp add: holdout_call_def get_subject_iterations_def Let_def)

lemma holdout_loop_Inr:
  "holdout_loop col metric assembly subjects its acc = Inr xs \<Longrightarrow>
   \<forall>s \<in> set its. nonfatal metric assembly subjects s"
proof (induction its arbitrary: acc)
  case Nil
  show ?case by simp
next
  case (Cons s its)
  show ?case
  proof (cases "holdout_score metric assembly subjects s")
    case (Inl e)
    with Cons.prems have i: "ignored e"
      and rest: "holdout_loop col metric assembly subjects its acc = Inr xs"
      by (simp_all split: if_splits)
    from Cons.IH [OF rest] Inl i show ?thesis by (simp add: nonfatal_def)
  next
    case (Inr sc)
    with Cons.prems
    have "holdout_loop col metric assembly subjects its (acc @ [(s, score_expand_dims col False sc)]) = Inr xs"
      by simp
    from Cons.IH [OF this] Inr show ?thesis by (simp add: nonfatal_def)
  qed
qed

text \<open>
  Claim C4.  Whenever \<open>HoldoutSubjectCeiling\<close> returns a Score, its center is the mean and
  its error is the standard deviation of the per-subject center values (the values along
  the subject axis before it is collapsed); and it returns a Score when at least one
  subject yields a score and no held-out subject ends in an exception that propagates.
  For the subjects \<open>A, B, C, D\<close> and a
  metric whose score has center \<open>0.5\<close> on every pool and held-out part, the per-subject
  scores are four entries of \<open>0.5\<close>, and the result has center \<open>0.5\<close> and error \<open>0\<close>.
\<close>

theorem holdout_center_error:
  assumes "set_order_ok py_set"
    and "subjects = py_set (subject_values assembly)"
    and "per_subject = usable_scores col metric assembly subjects subjects"
    and "centers = map (\<lambda>(subject, score). center score) per_subject"
  shows "(\<forall>res. holdout_call col py_set merge_raw metric assembly = Inr res
        \<longrightarrow> holdout_loop col metric assembly subjects subjects [] = Inr per_subject
          \<and> per_subject \<noteq> []
          \<and> center res = mean centers \<and> error res = std centers)
     \<and> ((\<forall>s \<in> set subjects. nonfatal metric assembly subjects s)
          \<and> (\<exists>s \<in> set subjects. \<exists>sc. holdout_score metric assembly subjects s = Inr sc)
        \<longrightarrow> holdout_loop col metric assembly subjects subjects [] = Inr per_subject
          \<and> (\<exists>res. holdout_call col py_set merge_raw metric assembly = Inr res
                \<and> center res = mean centers \<and> error res = std centers))
     \<and> (set (subject_values assembly) = {''A'', ''B'', ''C'', ''D''}
          \<and> (\<forall>pool heldout. \<exists>sc. metric pool heldout = Inr sc \<and> center sc = 1 / 2)
        \<longrightarrow> holdout_loop col metric assembly subjects subjects [] = Inr per_subject
          \<and> length per_subject = 4
          \<and> set (map fst per_subject) = {''A'', ''B'', ''C'', ''D''}
          \<and> (\<forall>(subject, score) \<in> set per_subject. center score = 1 / 2)
          \<and> (\<exists>res. holdout_call col py_set merge_raw metric assembly = Inr res
                \<and> center res = 1 / 2 \<and> error res = 0))"
proof -
  have general: "holdout_loop col metric assembly subjects subjects [] = Inr per_subject
          \<and> (\<exists>res. holdout_call col py_set merge_raw metric assembly = Inr res
                \<and> center res = mean centers \<and> error res = std centers)"
    if nf: "\<forall>s \<in> set subjects. nonfatal metric assembly subjects s"
      and ex: "\<exists>s \<in> set subjects. \<exists>sc. holdout_score metric assembly subjects s = Inr sc"
  proof -
    have loop: "holdout_loop col metric assembly subjects subjects [] = Inr per_subject"
      using holdout_loop_nonfatal [OF nf, of col "[]"] assms(3) by simp
    from ex obtain s sc where "s \<in> set subjects" "holdout_score metric assembly subjects s = Inr sc"
      by blast
    then have "(s, score_expand_dims col False sc) \<in> set per_subject"
      using assms(3) by (simp add: usable_scores_mem)
    then obtain p ps where ps: "per_subject = p # ps"
      by (cases per_subject) auto
    have "holdout_call col py_set merge_raw metric assembly =
       Inr \<lparr>center = mean (map (\<lambda>(subject, score). center score) (p # ps)),
            error = std (map (\<lambda>(subject, score). center score) (p # ps)),
            score_dims = remove1 col (score_dims (snd p)),
            raw = merge_raw (map (\<lambda>(subject, score). raw score) (p # ps))\<rparr>"
      using holdout_call_usable [of py_set assembly metric col p ps merge_raw] nf ps assms(2,3)
      by simp
    then show ?thesis using loop ps assms(4) by simp
  qed
  have const_metric: "holdout_loop col metric assembly subjects subjects [] = Inr per_subject
          \<and> length per_subject = 4
          \<and> set (map fst per_subject) = {''A'', ''B'', ''C'', ''D''}
          \<and> (\<forall>(subject, score) \<in> set per_subject. center score = 1 / 2)
          \<and> (\<exists>res. holdout_call col py_set merge_raw metric assembly = Inr res
                \<and> center res = 1 / 2 \<and> error res = 0)"
    if four: "set (subject_values assembly) = {''A'', ''B'', ''C'', ''D''}"
      and half: "\<forall>pool heldout. \<exists>sc. metric pool heldout = Inr sc \<and> center sc = 1 / 2"
  proof -
    have sc: "\<exists>sc. holdout_score metric assembly subjects s = Inr sc \<and> center sc = 1 / 2" for s
      using half by (simp add: holdout_score_def Let_def)
    have nf: "\<forall>s \<in> set subjects. nonfatal metric assembly subjects s"
    proof
      fix s
      from sc [of s] show "nonfatal metric assembly subjects s"
        by (auto simp: nonfatal_def)
    qed
    have d: "distinct subjects" and st: "set subjects = {''A'', ''B'', ''C'', ''D''}"
      using assms(1,2) four by (simp_all add: set_order_ok_def)
    have "card (set subjects) = 4" by (simp add: st)
    then have len: "length subjects = 4" using d by (simp add: distinct_card)
    have "''A'' \<in> set subjects" by (simp add: st)
    moreover obtain scA where "holdout_score metric assembly subjects ''A'' = Inr scA"
      using sc [of "''A''"] by blast
    ultimately have ex: "\<exists>s \<in> set subjects. \<exists>sc. holdout_score metric assembly subjects s = Inr sc"
      by (intro bexI exI)
    have "\<forall>s \<in> set subjects. \<exists>sc. holdout_score metric assembly subjects s = Inr sc"
    proof
      fix s
      from sc [of s] show "\<exists>sc. holdout_score metric assembly subjects s = Inr sc" by blast
    qed
    then have fsts: "map fst per_subject = subjects"
      unfolding assms(3) by (rule usable_scores_all)
    have l4: "length per_subject = 4"
      using fsts len by (metis length_map)
    have each: "\<forall>(subject, score) \<in> set per_subject. center score = 1 / 2"
    proof (clarify)
      fix s tagged
      assume "(s, tagged) \<in> set per_subject"
      then obtain sc' where "holdout_score metric assembly subjects s = Inr sc'"
        "tagged = score_expand_dims col False sc'"
        using assms(3) by (auto simp: usable_scores_mem)
      with sc [of s] show "center tagged = 1 / 2"
        by (simp add: score_expand_dims_fields)
    qed
    have ne: "centers \<noteq> []" using l4 assms(4) by auto
    have allc: "\<forall>x \<in> set centers. x = 1 / 2"
      using each assms(4) by auto
    have mc: "mean centers = 1 / 2" using mean_constant [OF ne allc] .
    have sd: "std centers = 0" using std_constant [OF ne allc] .
    have stf: "set (map fst per_subject) = {''A'', ''B'', ''C'', ''D''}"
      unfolding fsts by (rule st)
    from general [OF nf ex] have loop: "holdout_loop col metric assembly subjects subjects [] = Inr per_subject"
      and res: "\<exists>res. holdout_call col py_set merge_raw metric assembly = Inr res
                \<and> center res = mean centers \<and> error res = std centers" by blast+
    from res have res': "\<exists>res. holdout_call col py_set merge_raw metric assembly = Inr res
                \<and> center res = 1 / 2 \<and> error res = 0"
      unfolding mc sd .
    show ?thesis
      by (intro conjI loop l4 stf each res')
  qed
  have returned: "holdout_loop col metric assembly subjects subjects [] = Inr per_subject
          \<and> per_subject \<noteq> []
          \<and> center res = mean centers \<and> error res = std centers"
    if r: "holdout_call col py_set merge_raw metric assembly = Inr res" for res
  proof -
    from r obtain xs where l: "holdout_loop col metric assembly subjects subjects [] = Inr xs"
      and ne: "xs \<noteq> []"
      using assms(2)
      by (auto simp: holdout_call_def get_subject_iterations_def Let_def
          split: sum.splits list.splits)
    have nf: "\<forall>s \<in> set subjects. nonfatal metric assembly subjects s"
      using l by (rule holdout_loop_Inr)
    have xs: "xs = per_subject"
      using holdout_loop_nonfatal [OF nf, of col "[]"] l assms(3) by simp
    from ne xs obtain p ps where ps: "per_subject = p # ps"
      by (cases per_subject) auto
    have "holdout_call col py_set merge_raw metric assembly =
       Inr \<lparr>center = mean (map (\<lambda>(subject, score). center score) (p # ps)),
            error = std (map (\<lambda>(subject, score). center score) (p # ps)),
            score_dims = remove1 col (score_dims (snd p)),
            raw = merge_raw (map (\<lambda>(subject, score). raw score) (p # ps))\<rparr>"
      using holdout_call_usable [of py_set assembly metric col p ps merge_raw] nf ps assms(2,3)
      by simp
    with r have "center res = mean centers" "error res = std centers"
      using ps assms(4) by auto
    with l xs ne show ?thesis by simp
  qed
  show ?thesis
    apply (intro conjI)
    subgoal using returned by blast
    subgoal using general by blast
    subgoal using const_metric by blast
    done
qed

theorem holdout_center_error_witness:
  "set_order_ok remdups
   \<and> set (subject_values [(''A'', ()), (''B'', ()), (''C'', ()), (''D'', ())]) = {''A'', ''B'', ''C'', ''D''}
   \<and> (\<exists>res. holdout_call ''subject'' remdups (\<lambda>ts. \<lparr>dims = [''split''], coords = [], vals = ()\<rparr>)
                (\<lambda>pool heldout. Inr \<lparr>center = 1 / 2, error = 0, score_dims = [''aggregation''],
                                       raw = \<lparr>dims = [''split''], coords = [], vals = ()\<rparr>\<rparr>)
                [(''A'', ()), (''B'', ()), (''C'', ()), (''D'', ())] = Inr res
             \<and> center res = 1 / 2 \<and> error res = 0)"
proof -
  let ?a = "[(''A'', ()), (''B'', ()), (''C'', ()), (''D'', ())] :: unit assembly"
  let ?m = "\<lambda>(pool :: unit assembly) (heldout :: unit assembly).
      (Inr \<lparr>center = 1 / 2, error = 0, score_dims = [''aggregation''],
            raw = \<lparr>dims = [''split''], coords = [], vals = ()\<rparr>\<rparr> :: error + unit score)"
  let ?subjects = "remdups (subject_values ?a)"
  have ok: "set_order_ok remdups"
    by (simp add: set_order_ok_def)
  have nf: "\<forall>s \<in> set ?subjects. nonfatal ?m ?a ?subjects s"
    by (simp add: nonfatal_def holdout_score_def)
  have four: "set (subject_values ?a) = {''A'', ''B'', ''C'', ''D''}"
    by (simp add: subject_values_def)
  have half: "\<forall>pool heldout. \<exists>sc. ?m pool heldout = Inr sc \<and> center sc = 1 / 2"
    by simp
  have ex: "\<exists>s \<in> set ?subjects. \<exists>sc. holdout_score ?m ?a ?subjects s = Inr sc"
    by (auto simp: holdout_score_def subject_values_def)
  from holdout_center_error [where py_set = remdups and assembly = ?a and metric = ?m
      and col = "''subject''" and merge_raw = "\<lambda>ts. \<lparr>dims = [''split''], coords = [], vals = ()\<rparr>",
      OF ok refl refl refl]
    nf ex four half
  have "\<exists>res. holdout_call ''subject'' remdups (\<lambda>ts. \<lparr>dims = [''split''], coords = [], vals = ()\<rparr>) ?m ?a = Inr res
             \<and> center res = 1 / 2 \<and> error res = 0"
    by blast
  with ok four show ?thesis by blast
qed

lemma ignored_iff:
  "ignored e \<longleftrightarrow>
     (\<exists>m. e = NoOverlapException m) \<or> (\<exists>m. e = ValueError m \<and> str_contains m ''Found array with'')"
  by (cases e) simp_all

text \<open>
  Claim C5.  In the loop of \<open>HoldoutSubjectCeiling\<close> the ignored exceptions are exactly the
  no-overlap exception and the \<open>ValueError\<close> whose message contains \<open>Found array with\<close>.  A
  subject whose metric raises one of them is skipped and the loop goes on with the
  remaining subjects, so that the scores kept are those of exactly the subjects that yield
  one; any other exception ends the loop and the call with that exception; and when every
  subject is skipped the call raises (\<open>KeyError('z')\<close> from the merge of no scores).
\<close>

theorem holdout_skips_and_raises:
  assumes "subjects = py_set (subject_values assembly)"
  shows "(\<forall>e. ignored e \<longleftrightarrow>
            (\<exists>m. e = NoOverlapException m)
          \<or> (\<exists>m. e = ValueError m \<and> str_contains m ''Found array with''))
     \<and> (\<forall>subject rest acc e.
           holdout_score metric assembly subjects subject = Inl e \<and> ignored e
           \<longrightarrow> holdout_loop col metric assembly subjects (subject # rest) acc
               = holdout_loop col metric assembly subjects rest acc)
     \<and> (\<forall>subject rest acc e.
           holdout_score metric assembly subjects subject = Inl e \<and> \<not> ignored e
           \<longrightarrow> holdout_loop col metric assembly subjects (subject # rest) acc = Inl e)
     \<and> ((\<forall>s \<in> set subjects. nonfatal metric assembly subjects s)
           \<longrightarrow> holdout_loop col metric assembly subjects subjects []
                 = Inr (usable_scores col metric assembly subjects subjects)
             \<and> map fst (usable_scores col metric assembly subjects subjects)
                 = filter (\<lambda>s. \<exists>sc. holdout_score metric assembly subjects s = Inr sc) subjects)
     \<and> (\<forall>pre s post e.
           subjects = pre @ s # post \<and> (\<forall>p \<in> set pre. nonfatal metric assembly subjects p)
           \<and> holdout_score metric assembly subjects s = Inl e \<and> \<not> ignored e
           \<longrightarrow> holdout_call col py_set merge_raw metric assembly = Inl e)
     \<and> ((\<forall>s \<in> set subjects. \<exists>e. holdout_score metric assembly subjects s = Inl e \<and> ignored e)
           \<longrightarrow> holdout_call col py_set merge_raw metric assembly = Inl (KeyError ''z''))"
proof -
  have skip: "holdout_loop col metric assembly subjects (subject # rest) acc
               = holdout_loop col metric assembly subjects rest acc"
    if "holdout_score metric assembly subjects subject = Inl e \<and> ignored e"
    for subject rest acc e
    using that by simp
  have raise: "holdout_loop col metric assembly subjects (subject # rest) acc = Inl e"
    if "holdout_score metric assembly subjects subject = Inl e \<and> \<not> ignored e"
    for subject rest acc e
    using that by simp
  have kept: "holdout_loop col metric assembly subjects subjects []
                 = Inr (usable_scores col metric assembly subjects subjects)
             \<and> map fst (usable_scores col metric assembly subjects subjects)
                 = filter (\<lambda>s. \<exists>sc. holdout_score metric assembly subjects s = Inr sc) subjects"
    if nf: "\<forall>s \<in> set subjects. nonfatal metric assembly subjects s"
    using holdout_loop_nonfatal [OF nf, of col "[]"] usable_scores_subjects [of col metric assembly subjects subjects]
    by simp
  have fatal: "holdout_call col py_set merge_raw metric assembly = Inl e"
    if h: "subjects = pre @ s # post \<and> (\<forall>p \<in> set pre. nonfatal metric assembly subjects p)
           \<and> holdout_score metric assembly subjects s = Inl e \<and> \<not> ignored e"
    for pre s post e
  proof -
    from h have "holdout_loop col metric assembly subjects (pre @ s # post) [] = Inl e"
      using holdout_loop_fatal [of pre metric assembly subjects s e col post "[]"] by blast
    with h have "holdout_loop col metric assembly subjects subjects [] = Inl e" by simp
    then show ?thesis
      using assms by (simp add: holdout_call_def get_subject_iterations_def Let_def)
  qed
  have none: "holdout_call col py_set merge_raw metric assembly = Inl (KeyError ''z'')"
    if h: "\<forall>s \<in> set subjects. \<exists>e. holdout_score metric assembly subjects s = Inl e \<and> ignored e"
  proof -
    from h have nf: "\<forall>s \<in> set subjects. nonfatal metric assembly subjects s"
      by (auto simp: nonfatal_def)
    from h have "\<forall>s \<in> set subjects. \<exists>e. holdout_score metric assembly subjects s = Inl e"
      by blast
    then have "usable_scores col metric assembly subjects subjects = []"
      by (rule usable_scores_empty)
    with holdout_loop_nonfatal [OF nf, of col "[]"]
    have "holdout_loop col metric assembly subjects subjects [] = Inr []" by simp
    then show ?thesis
      using assms by (simp add: holdout_call_def get_subject_iterations_def Let_def)
  qed
  show ?thesis
    apply (intro conjI allI impI)
    subgoal by (rule ignored_iff)
    subgoal by (erule skip)
    subgoal by (erule raise)
    subgoal by (drule kept, erule conjunct1)
    subgoal by (drule kept, erule conjunct2)
    subgoal by (erule fatal)
    subgoal by (erule none)
    done
qed

theorem holdout_skips_and_raises_witness:
  "holdout_loop ''subject''
      (\<lambda>pool heldout.
         if map fst heldout = [''B''] then Inl (NoOverlapException ''no overlap'')
         else if map fst heldout = [''C''] then Inl (ValueError ''Found array with 0 sample(s)'')
         else Inr \<lparr>center = 1 / 2, error = 0, score_dims = [''aggregation''],
                   raw = \<lparr>dims = [''split''], coords = [], vals = ()\<rparr>\<rparr>)
      [(''A'', ()), (''B'', ()), (''C'', ())] [''A'', ''B'', ''C''] [''A'', ''B'', ''C''] []
    = Inr [(''A'', \<lparr>center = 1 / 2, error = 0, score_dims = [''subject'', ''aggregation''],
                     raw = \<lparr>dims = [''split''], coords = [], vals = ()\<rparr>\<rparr>)]
   \<and> holdout_call ''subject'' remdups (\<lambda>ts. \<lparr>dims = [''split''], coords = [], vals = ()\<rparr>)
      (\<lambda>pool heldout.
         if map fst heldout = [''B''] then Inl (ValueError ''bad shape'')
         else Inr \<lparr>center = 1 / 2, error = 0, score_dims = [''aggregation''],
                   raw = \<lparr>dims = [''split''], coords = [], vals = ()\<rparr>\<rparr>)
      [(''A'', ()), (''B'', ()), (''C'', ())]
    = Inl (ValueError ''bad shape'')
   \<and> holdout_call ''subject'' remdups (\<lambda>ts. \<lparr>dims = [''split''], coords = [], vals = ()\<rparr>)
      (\<lambda>pool heldout. Inl (NoOverlapException ''no overlap''))
      [(''A'', ()), (''B'', ()), (''C'', ())]
    = Inl (KeyError ''z'')"
proof -
  let ?a = "[(''A'', ()), (''B'', ()), (''C'', ())] :: unit assembly"
  let ?sc = "\<lparr>center = 1 / 2, error = 0, score_dims = [''aggregation''],
               raw = \<lparr>dims = [''split''], coords = [], vals = ()\<rparr>\<rparr> :: unit score"
  let ?mr = "\<lambda>ts :: unit tensor list. \<lparr>dims = [''split''], coords = [], vals = ()\<rparr>"
  let ?m1 = "\<lambda>(pool :: unit assembly) (heldout :: unit assembly).
         if map fst heldout = [''B''] then Inl (NoOverlapException ''no overlap'')
         else if map fst heldout = [''C''] then Inl (ValueError ''Found array with 0 sample(s)'')
         else Inr ?sc"
  let ?m2 = "\<lambda>(pool :: unit assembly) (heldout :: unit assembly).
         if map fst heldout = [''B''] then Inl (ValueError ''bad shape'')
         else Inr ?sc"
  let ?m3 = "\<lambda>(pool :: unit assembly) (heldout :: unit assembly).
         (Inl (NoOverlapException ''no overlap'') :: error + unit score)"
  have subj: "remdups (subject_values ?a) = [''A'', ''B'', ''C'']"
    by (simp add: subject_values_def)
  have nf1: "\<forall>s \<in> set [''A'', ''B'', ''C'']. nonfatal ?m1 ?a [''A'', ''B'', ''C''] s"
    by (simp add: nonfatal_def holdout_score_def)
  have us1: "usable_scores ''subject'' ?m1 ?a [''A'', ''B'', ''C''] [''A'', ''B'', ''C'']
      = [(''A'', \<lparr>center = 1 / 2, error = 0, score_dims = [''subject'', ''aggregation''],
                     raw = \<lparr>dims = [''split''], coords = [], vals = ()\<rparr>\<rparr>)]"
    by (simp add: usable_scores_def holdout_score_def score_expand_dims_def)
  have one: "holdout_loop ''subject'' ?m1 ?a [''A'', ''B'', ''C''] [''A'', ''B'', ''C''] []
      = Inr (usable_scores ''subject'' ?m1 ?a [''A'', ''B'', ''C''] [''A'', ''B'', ''C''])"
    using holdout_skips_and_raises [where py_set = remdups and assembly = ?a and metric = ?m1
        and col = "''subject''" and merge_raw = ?mr and subjects = "[''A'', ''B'', ''C'']",
        OF subj [symmetric], THEN conjunct2, THEN conjunct2, THEN conjunct2, THEN conjunct1,
        THEN mp, OF nf1, THEN conjunct1] .
  have pre2: "[''A'', ''B'', ''C''] = [''A''] @ ''B'' # [''C'']
      \<and> (\<forall>p \<in> set [''A'']. nonfatal ?m2 ?a [''A'', ''B'', ''C''] p)
      \<and> holdout_score ?m2 ?a [''A'', ''B'', ''C''] ''B'' = Inl (ValueError ''bad shape'')
      \<and> \<not> ignored (ValueError ''bad shape'')"
    by (simp add: nonfatal_def holdout_score_def)
  have two: "holdout_call ''subject'' remdups ?mr ?m2 ?a = Inl (ValueError ''bad shape'')"
    using holdout_skips_and_raises [where py_set = remdups and assembly = ?a and metric = ?m2
        and col = "''subject''" and merge_raw = ?mr and subjects = "[''A'', ''B'', ''C'']",
        OF subj [symmetric], THEN conjunct2, THEN conjunct2, THEN conjunct2, THEN conjunct2,
        THEN conjunct1, rule_format, OF pre2] .
  have all3: "\<forall>s \<in> set [''A'', ''B'', ''C''].
      \<exists>e. holdout_score ?m3 ?a [''A'', ''B'', ''C''] s = Inl e \<and> ignored e"
    by (simp add: holdout_score_def)
  have three: "holdout_call ''subject'' remdups ?mr ?m3 ?a = Inl (KeyError ''z'')"
    using holdout_skips_and_raises [where py_set = remdups and assembly = ?a and metric = ?m3
        and col = "''subject''" and merge_raw = ?mr and subjects = "[''A'', ''B'', ''C'']",
        OF subj [symmetric], THEN conjunct2, THEN conjunct2, THEN conjunct2, THEN conjunct2,
        THEN conjunct2, THEN mp, OF all3] .
  show ?thesis
    using one two three unfolding us1 by (intro conjI)
qed

section \<open>Properties of the endpoint search\<close>

lemma ys_column:
  "x < 1000 \<Longrightarrow> map (\<lambda>y. y ! x) (ys params) = map (\<lambda>(bootstrap, v0, tau0). v (real x) v0 tau0) params"
  by (simp add: ys_def interpolation_xs_def case_prod_unfold)

lemma median_ys_nth:
  "x < 1000 \<Longrightarrow> median_ys params ! x = median_curve params x"
  by (simp add: median_ys_def median_curve_def interpolation_xs_def ys_column)

lemma length_diffs: "length (diffs params) = 999"
  by (simp add: diffs_def np_diff_def median_ys_def interpolation_xs_def)

lemma diffs_nth:
  "i < 999 \<Longrightarrow> diffs params ! i = forward_difference params i"
proof -
  assume i: "i < 999"
  have l: "length (median_ys params) = 1000"
    by (simp add: median_ys_def interpolation_xs_def)
  have "diffs params ! i = median_ys params ! (i + 1) - median_ys params ! i"
    using i by (simp add: diffs_def np_diff_def l)
  also have "\<dots> = median_curve params (i + 1) - median_curve params i"
    using i by (simp only: median_ys_nth)
  finally show ?thesis by (simp only: forward_difference_def)
qed

lemma filter_upt_first:
  assumes "filter P [0 ..< n] = i # is"
  shows "i < n \<and> P i \<and> (\<forall>j < i. \<not> P j) \<and> fold min is i = i"
proof -
  have mem: "i \<in> set (filter P [0 ..< n])" using assms by simp
  then have i: "i < n" "P i" by auto
  have srt: "sorted (filter P [0 ..< n])" by (simp add: sorted_wrt_filter)
  then have le: "\<forall>k \<in> set is. i \<le> k" using assms by simp
  have "fold min is i = Min (set (i # is))"
    by (rule Min.set_eq_fold [symmetric])
  also have "\<dots> = i"
    using le by (intro Min_eqI) auto
  finally have f: "fold min is i = i" .
  have "\<not> P j" if "j < i" for j
  proof
    assume "P j"
    with that i have "j \<in> set (filter P [0 ..< n])" by simp
    with assms le that show False by auto
  qed
  with i f show ?thesis by blast
qed

lemma end_x_Inr:
  "end_x params = Inr e \<longleftrightarrow>
     e < 999 \<and> forward_difference params e < asymptote_threshold
     \<and> (\<forall>x < e. \<not> forward_difference params x < asymptote_threshold)"
proof
  assume a: "end_x params = Inr e"
  then obtain i "is" where f: "filter (\<lambda>i. diffs params ! i < asymptote_threshold) [0 ..< 999] = i # is"
    and e: "e = fold min is i"
    by (auto simp: end_x_def length_diffs split: list.splits)
  from filter_upt_first [OF f] e have "e = i" "i < 999" "diffs params ! i < asymptote_threshold"
    "\<forall>j < i. \<not> diffs params ! j < asymptote_threshold" by auto
  then show "e < 999 \<and> forward_difference params e < asymptote_threshold
     \<and> (\<forall>x < e. \<not> forward_difference params x < asymptote_threshold)"
    by (auto simp: diffs_nth)
next
  assume a: "e < 999 \<and> forward_difference params e < asymptote_threshold
     \<and> (\<forall>x < e. \<not> forward_difference params x < asymptote_threshold)"
  then have "e \<in> set (filter (\<lambda>i. diffs params ! i < asymptote_threshold) [0 ..< 999])"
    by (simp add: diffs_nth)
  then obtain i "is" where f: "filter (\<lambda>i. diffs params ! i < asymptote_threshold) [0 ..< 999] = i # is"
    by (cases "filter (\<lambda>i. diffs params ! i < asymptote_threshold) [0 ..< 999]") auto
  from filter_upt_first [OF f] have i: "i < 999" "diffs params ! i < asymptote_threshold"
    "\<forall>j < i. \<not> diffs params ! j < asymptote_threshold" "fold min is i = i" by auto
  have "i = e"
  proof (rule ccontr)
    assume "i \<noteq> e"
    then consider "i < e" | "e < i" by linarith
    then show False
    proof cases
      case 1
      with a i show False by (simp add: diffs_nth)
    next
      case 2
      with a i show False by (auto simp: diffs_nth)
    qed
  qed
  with f i show "end_x params = Inr e"
    by (simp add: end_x_def length_diffs)
qed

lemma end_x_Inl:
  "(\<exists>e. end_x params = Inl e) \<longleftrightarrow> (\<forall>x < 999. \<not> forward_difference params x < asymptote_threshold)"
proof
  assume "\<exists>e. end_x params = Inl e"
  then have "filter (\<lambda>i. diffs params ! i < asymptote_threshold) [0 ..< 999] = []"
    by (auto simp: end_x_def length_diffs split: list.splits)
  then show "\<forall>x < 999. \<not> forward_difference params x < asymptote_threshold"
    by (auto simp: filter_empty_conv diffs_nth)
next
  assume "\<forall>x < 999. \<not> forward_difference params x < asymptote_threshold"
  then have "filter (\<lambda>i. diffs params ! i < asymptote_threshold) [0 ..< 999] = []"
    by (auto simp: filter_empty_conv diffs_nth)
  then show "\<exists>e. end_x params = Inl e"
    by (simp add: end_x_def length_diffs)
qed

lemma end_x_Inl_ValueError:
  "end_x params = Inl e \<Longrightarrow>
   e = ValueError ''zero-size array to reduction operation minimum which has no identity''"
  by (auto simp: end_x_def split: list.splits)

section \<open>Properties of the extrapolation of one neuroid\<close>

lemma nanpercentile_Some:
  "xs \<noteq> [] \<Longrightarrow> 0 \<le> q \<Longrightarrow> q \<le> 100 \<Longrightarrow>
   nanpercentile (map Some xs) q = Inr (Some (percentile_linear xs q))"
proof -
  assume ne: "xs \<noteq> []" and q: "0 \<le> q" "q \<le> 100"
  have "List.map_filter id (map Some xs) = xs"
    by (induction xs) (simp_all add: List.map_filter_simps)
  then show ?thesis
    using ne q by (cases xs) (simp_all add: nanpercentile_def)
qed

lemma ci_error_default:
  "xs \<noteq> [] \<Longrightarrow>
   ci_error (map Some xs) c (95 / 100)
     = Inr (Some (c - percentile_linear xs (5 / 2)), Some (percentile_linear xs (3999 / 40) - c))"
  by (simp add: ci_error_def nanpercentile_Some)

lemma ys_samples:
  "x < 1000 \<Longrightarrow> map (\<lambda>y. Some (y ! x)) (ys params) = map Some (curve_values params x)"
proof -
  assume x: "x < 1000"
  have "map (\<lambda>y. Some (y ! x)) (ys params) = map Some (map (\<lambda>y. y ! x) (ys params))"
    by simp
  then show ?thesis
    by (simp only: ys_column [OF x] curve_values_def)
qed

lemma find_endpoint_and_error_empty:
  "find_endpoint_and_error ceilings [] = Inl (KeyError ''z'')"
  by (simp add: find_endpoint_and_error_def merge_data_arrays_def)

lemma find_endpoint_and_error_no_endpoint:
  "params \<noteq> [] \<Longrightarrow> end_x params = Inl e \<Longrightarrow> find_endpoint_and_error ceilings params = Inl e"
  by (simp add: find_endpoint_and_error_def merge_data_arrays_def)

lemma find_endpoint_and_error_endpoint:
  assumes "params \<noteq> []" and "end_x params = Inr e"
  shows "find_endpoint_and_error ceilings params =
     Inr \<lparr>ceiling_center = median (map (\<lambda>(bootstrap, v0, tau0). v0) params),
          error_low = Some (median (map (\<lambda>(bootstrap, v0, tau0). v0) params)
                            - percentile_linear (curve_values params e) (5 / 2)),
          error_high = Some (percentile_linear (curve_values params e) (3999 / 40)
                            - median (map (\<lambda>(bootstrap, v0, tau0). v0) params)),
          raw_ceilings = ceilings, bootstrapped_params = params, endpoint_x = e\<rparr>"
proof -
  have e: "e < 1000" using assms(2) by (simp add: end_x_Inr)
  have ne: "curve_values params e \<noteq> []" using assms(1) by (simp add: curve_values_def)
  have ci: "ci_error (map (\<lambda>y. Some (y ! e)) (ys params))
               (median (map (\<lambda>(bootstrap, v0, tau0). v0) params)) (95 / 100)
     = Inr (Some (median (map (\<lambda>(bootstrap, v0, tau0). v0) params)
                   - percentile_linear (curve_values params e) (5 / 2)),
            Some (percentile_linear (curve_values params e) (3999 / 40)
                   - median (map (\<lambda>(bootstrap, v0, tau0). v0) params)))"
    by (simp only: ys_samples [OF e] ci_error_default [OF ne])
  show ?thesis
    using assms ci by (simp add: find_endpoint_and_error_def merge_data_arrays_def Let_def)
qed

lemma find_endpoint_and_error_cases:
  "find_endpoint_and_error ceilings params = Inr score \<Longrightarrow>
   params \<noteq> [] \<and> end_x params = Inr (endpoint_x score) \<and> bootstrapped_params score = params"
proof -
  assume a: "find_endpoint_and_error ceilings params = Inr score"
  have ne: "params \<noteq> []"
    using a find_endpoint_and_error_empty by auto
  obtain e where e: "end_x params = Inr e"
    using a find_endpoint_and_error_no_endpoint [OF ne] by (cases "end_x params") auto
  from find_endpoint_and_error_endpoint [OF ne e, of ceilings] a
  have "endpoint_x score = e" "bootstrapped_params score = params" by auto
  with ne e show ?thesis by simp
qed

lemma extrapolate_neuroid_fst:
  "fst (extrapolate_neuroid ext col nb world ceilings) =
     (case fitted_params ext col nb ceilings of
        Inl e \<Rightarrow> Inl e
      | Inr params \<Rightarrow> find_endpoint_and_error ceilings params)"
  by (simp add: extrapolate_neuroid_def fitted_params_def Let_def split: prod.splits sum.splits)

lemma median_single: "median [x] = x"
  by (simp add: median_def)

lemma percentile_linear_single: "percentile_linear [x] q = x"
  by (simp add: percentile_linear_def)

lemma example_fitted_params:
  "fitted_params example_externals ''subject'' 1 example_ceilings = Inr [(0, 1 / 2, 10000)]"
  by (simp add: fitted_params_def table_dims_def example_externals_def example_ceilings_def
      bootstrapped_score_def fit_def sub_axis_def np_mean_def mean_def)

lemma example_end_x: "end_x [(0, 1 / 2, 10000)] = Inr 0"
proof -
  have "1 + (- 1 / 10000) \<le> exp (- 1 / 10000 :: real)"
    by (rule exp_ge_add_one_self)
  then have "forward_difference [(0, 1 / 2, 10000)] 0 < asymptote_threshold"
    by (simp add: forward_difference_def median_curve_def median_single v_def asymptote_threshold_def)
  then show ?thesis by (simp add: end_x_Inr)
qed

lemma example_neuroid_score:
  "fst (extrapolate_neuroid example_externals ''subject'' 1 world example_ceilings) =
     Inr \<lparr>ceiling_center = 1 / 2, error_low = Some (1 / 2), error_high = Some (- (1 / 2)),
          raw_ceilings = example_ceilings, bootstrapped_params = [(0, 1 / 2, 10000)],
          endpoint_x = 0\<rparr>"
proof -
  have "find_endpoint_and_error example_ceilings [(0, 1 / 2, 10000)] =
     Inr \<lparr>ceiling_center = 1 / 2, error_low = Some (1 / 2), error_high = Some (- (1 / 2)),
          raw_ceilings = example_ceilings, bootstrapped_params = [(0, 1 / 2, 10000)],
          endpoint_x = 0\<rparr>"
    using find_endpoint_and_error_endpoint [OF _ example_end_x, of example_ceilings]
    by (simp add: median_single curve_values_def percentile_linear_single v_def)
  then show ?thesis
    by (simp only: extrapolate_neuroid_fst example_fitted_params sum.case)
qed

lemma extrapolate_neuroid_Inr:
  assumes "fst (extrapolate_neuroid ext col nb world ceilings) = Inr score"
  shows "fitted_params ext col nb ceilings = Inr (bootstrapped_params score)
     \<and> find_endpoint_and_error ceilings (bootstrapped_params score) = Inr score"
proof -
  from assms obtain params where p: "fitted_params ext col nb ceilings = Inr params"
    and f: "find_endpoint_and_error ceilings params = Inr score"
    by (auto simp: extrapolate_neuroid_fst split: sum.splits)
  from find_endpoint_and_error_cases [OF f] have "bootstrapped_params score = params" by simp
  with p f show ?thesis by simp
qed

lemma median_pair: "median [x, y] = (x + y) / 2"
  by (cases "x \<le> y") (simp_all add: median_def)

lemma exp_minus_10000: "exp (- 10000 :: real) \<le> 1 / 10001"
proof -
  have "1 + 10000 \<le> exp (10000 :: real)" by (rule exp_ge_add_one_self)
  moreover have "exp (10000 :: real) * exp (- 10000) = 1" by (simp add: exp_minus)
  moreover have "(1 + 10000) * exp (- 10000 :: real) \<le> exp 10000 * exp (- 10000)"
    by (intro mult_right_mono exp_ge_add_one_self) simp
  ultimately show ?thesis by simp
qed

lemma spread_fitted_params:
  "fitted_params resampling_externals ''subject'' 2 spread_ceilings
     = Inr [(0, 1 / 5, 1 / 10000), (1, 3 / 5, 1 / 10000)]"
  by (simp add: fitted_params_def table_dims_def resampling_externals_def spread_ceilings_def
      bootstrapped_score_def fit_def sub_axis_def np_mean_def mean_def List.map_filter_simps
      numeral_2_eq_2)

lemma spread_median_curve:
  "median_curve [(b0, 1 / 5, 1 / 10000), (b1, 3 / 5, 1 / 10000)] x = 2 / 5 * (1 - exp (- (10000 * real x)))"
  by (simp add: median_curve_def median_pair v_def field_simps)

lemma spread_end_x: "end_x [(0, 1 / 5, 1 / 10000), (1, 3 / 5, 1 / 10000)] = Inr 1"
proof -
  let ?params = "[(0 :: nat, 1 / 5 :: real, 1 / 10000 :: real), (1, 3 / 5, 1 / 10000)]"
  have e: "exp (- 10000 :: real) \<le> 1 / 10001" by (rule exp_minus_10000)
  have f0: "forward_difference ?params 0 = 2 / 5 * (1 - exp (- 10000))"
    by (simp add: forward_difference_def spread_median_curve)
  have f1: "forward_difference ?params 1 = 2 / 5 * (exp (- 10000) - exp (- 20000))"
    by (simp add: forward_difference_def spread_median_curve algebra_simps)
  have n0: "\<not> forward_difference ?params 0 < asymptote_threshold"
    unfolding f0 asymptote_threshold_def using e by simp
  have "exp (- 10000 :: real) - exp (- 20000) \<le> exp (- 10000)" by simp
  with e have "exp (- 10000 :: real) - exp (- 20000) \<le> 1 / 10001" by (rule order_trans [rotated])
  then have l1: "forward_difference ?params 1 < asymptote_threshold"
    unfolding f1 asymptote_threshold_def by simp
  have "\<forall>x < (1 :: nat). \<not> forward_difference ?params x < asymptote_threshold"
    using n0 by simp
  with l1 show ?thesis by (simp add: end_x_Inr)
qed

lemma spread_curve_values:
  "curve_values [(0, 1 / 5, 1 / 10000), (1, 3 / 5, 1 / 10000)] 1
     = [1 / 5 * (1 - exp (- 10000)), 3 / 5 * (1 - exp (- 10000))]"
  by (simp add: curve_values_def v_def)

lemma spread_center:
  "median (map (\<lambda>(bootstrap, v0, tau0). v0) [(0 :: nat, 1 / 5 :: real, 1 / 10000 :: real), (1, 3 / 5, 1 / 10000)])
     = 2 / 5"
  by (simp add: median_pair)

lemma spread_percentiles:
  "percentile_linear [1 / 5 * (1 - exp (- 10000)), 3 / 5 * (1 - exp (- 10000))] (5 / 2)
     = 21 / 100 * (1 - exp (- 10000))"
  "percentile_linear [1 / 5 * (1 - exp (- 10000)), 3 / 5 * (1 - exp (- 10000))] (3999 / 40)
     = 5999 / 10000 * (1 - exp (- 10000))"
proof -
  have "(0 :: real) \<le> 1 - exp (- 10000)" by simp
  then have le: "1 / 5 * (1 - exp (- 10000 :: real)) \<le> 3 / 5 * (1 - exp (- 10000))"
    by (intro mult_right_mono) simp_all
  show "percentile_linear [1 / 5 * (1 - exp (- 10000)), 3 / 5 * (1 - exp (- 10000))] (5 / 2)
     = 21 / 100 * (1 - exp (- 10000))"
    using percentile_linear_pair [OF le, of "5 / 2"] by (simp add: algebra_simps)
  show "percentile_linear [1 / 5 * (1 - exp (- 10000)), 3 / 5 * (1 - exp (- 10000))] (3999 / 40)
     = 5999 / 10000 * (1 - exp (- 10000))"
    using percentile_linear_pair [OF le, of "3999 / 40"] by (simp add: algebra_simps)
qed

text \<open>
  Claim C2, as the code has it.  The error values of the Score of a neuroid are signed
  differences, not absolute distances: \<open>error_low\<close> is the center minus the lower (2.5th)
  percentile and \<open>error_high\<close> is the upper percentile of \<open>ci_error\<close> (the 99.975th, as the
  code computes it) minus the center, both percentiles being of the per-round curve values
  at the endpoint; the center is the median of the fitted \<open>v0\<close>.  So an error value is
  negative when its percentile lies on the other side of the center.
\<close>

theorem error_bars_signed:
  assumes "fst (extrapolate_neuroid ext col nb world ceilings) = Inr score"
    and "params = bootstrapped_params score"
    and "samples = curve_values params (endpoint_x score)"
    and "\<forall>(bootstrap, v0, tau0) \<in> set params. tau0 \<noteq> 0"
  shows "fitted_params ext col nb ceilings = Inr params
     \<and> ceiling_center score = median (map (\<lambda>(bootstrap, v0, tau0). v0) params)
     \<and> error_low score = Some (ceiling_center score - percentile_linear samples (5 / 2))
     \<and> error_high score = Some (percentile_linear samples (3999 / 40) - ceiling_center score)
     \<and> (0 \<le> ceiling_center score - percentile_linear samples (5 / 2)
          \<longleftrightarrow> percentile_linear samples (5 / 2) \<le> ceiling_center score)
     \<and> (0 \<le> percentile_linear samples (3999 / 40) - ceiling_center score
          \<longleftrightarrow> ceiling_center score \<le> percentile_linear samples (3999 / 40))"
proof -
  from extrapolate_neuroid_Inr [OF assms(1)] assms(2)
  have p: "fitted_params ext col nb ceilings = Inr params"
    and f: "find_endpoint_and_error ceilings params = Inr score" by simp_all
  from find_endpoint_and_error_cases [OF f]
  have ne: "params \<noteq> []" and e: "end_x params = Inr (endpoint_x score)" by simp_all
  let ?c = "median (map (\<lambda>(bootstrap, v0, tau0). v0) params)"
  have eq: "score = \<lparr>ceiling_center = ?c,
          error_low = Some (?c - percentile_linear (curve_values params (endpoint_x score)) (5 / 2)),
          error_high = Some (percentile_linear (curve_values params (endpoint_x score)) (3999 / 40) - ?c),
          raw_ceilings = ceilings, bootstrapped_params = params, endpoint_x = endpoint_x score\<rparr>"
    using find_endpoint_and_error_endpoint [OF ne e, of ceilings] f by simp
  have c: "ceiling_center score = ?c"
    using arg_cong [OF eq, of ceiling_center] by simp
  have l: "error_low score = Some (ceiling_center score - percentile_linear samples (5 / 2))"
    using arg_cong [OF eq, of error_low] c assms(3) by simp
  have h: "error_high score = Some (percentile_linear samples (3999 / 40) - ceiling_center score)"
    using arg_cong [OF eq, of error_high] c assms(3) by simp
  show ?thesis
    using p c l h by simp
qed

theorem error_bars_signed_witness:
  "fst (extrapolate_neuroid resampling_externals ''subject'' 2 [] spread_ceilings)
     = Inr \<lparr>ceiling_center = 2 / 5,
            error_low = Some (2 / 5 - 21 / 100 * (1 - exp (- 10000))),
            error_high = Some (5999 / 10000 * (1 - exp (- 10000)) - 2 / 5),
            raw_ceilings = spread_ceilings,
            bootstrapped_params = [(0, 1 / 5, 1 / 10000), (1, 3 / 5, 1 / 10000)],
            endpoint_x = 1\<rparr>
   \<and> fitted_params resampling_externals ''subject'' 2 spread_ceilings
       = Inr [(0, 1 / 5, 1 / 10000), (1, 3 / 5, 1 / 10000)]
   \<and> curve_values [(0, 1 / 5, 1 / 10000), (1, 3 / 5, 1 / 10000)] 1
       = [1 / 5 * (1 - exp (- 10000)), 3 / 5 * (1 - exp (- 10000))]
   \<and> Some (2 / 5 - 21 / 100 * (1 - exp (- 10000)))
       = Some (2 / 5 - percentile_linear [1 / 5 * (1 - exp (- 10000)), 3 / 5 * (1 - exp (- 10000))] (5 / 2))
   \<and> Some (5999 / 10000 * (1 - exp (- 10000)) - 2 / 5)
       = Some (percentile_linear [1 / 5 * (1 - exp (- 10000)), 3 / 5 * (1 - exp (- 10000))] (3999 / 40) - 2 / 5)"
proof -
  let ?params = "[(0 :: nat, 1 / 5 :: real, 1 / 10000 :: real), (1, 3 / 5, 1 / 10000)]"
  let ?score = "\<lparr>ceiling_center = 2 / 5,
            error_low = Some (2 / 5 - 21 / 100 * (1 - exp (- 10000))),
            error_high = Some (5999 / 10000 * (1 - exp (- 10000)) - 2 / 5),
            raw_ceilings = spread_ceilings,
            bootstrapped_params = ?params,
            endpoint_x = 1\<rparr>"
  have ne: "?params \<noteq> []" by simp
  have "find_endpoint_and_error spread_ceilings ?params = Inr ?score"
    using find_endpoint_and_error_endpoint [OF ne spread_end_x, of spread_ceilings]
    by (simp only: spread_center spread_curve_values spread_percentiles)
  then have s: "fst (extrapolate_neuroid resampling_externals ''subject'' 2 [] spread_ceilings) = Inr ?score"
    by (simp only: extrapolate_neuroid_fst spread_fitted_params sum.case)
  have t: "\<forall>(bootstrap, v0, tau0) \<in> set ?params. tau0 \<noteq> 0"
    by simp
  have b: "bootstrapped_params ?score = ?params" and x: "endpoint_x ?score = 1" by simp_all
  note T = error_bars_signed [OF s b [symmetric] refl, unfolded b x, OF t]
  have l: "error_low ?score = Some (ceiling_center ?score
          - percentile_linear (curve_values ?params 1) (5 / 2))"
    using T by blast
  have h: "error_high ?score = Some (percentile_linear (curve_values ?params 1) (3999 / 40)
          - ceiling_center ?score)"
    using T by blast
  have l': "Some (2 / 5 - 21 / 100 * (1 - exp (- 10000 :: real)))
       = Some (2 / 5 - percentile_linear [1 / 5 * (1 - exp (- 10000)), 3 / 5 * (1 - exp (- 10000))] (5 / 2))"
    using l by (simp only: spread_curve_values neuroid_score.simps)
  have h': "Some (5999 / 10000 * (1 - exp (- 10000 :: real)) - 2 / 5)
       = Some (percentile_linear [1 / 5 * (1 - exp (- 10000)), 3 / 5 * (1 - exp (- 10000))] (3999 / 40) - 2 / 5)"
    using h by (simp only: spread_curve_values neuroid_score.simps)
  show ?thesis
    using s spread_fitted_params spread_curve_values l' h' by (intro conjI)
qed

text \<open>
  Claim C2, as stated, fails: with a single fitted pair \<open>v0 = 0.5\<close>, \<open>tau0 = 10000\<close> the
  curve rises by less than the threshold in its first step, the endpoint is \<open>0\<close>, the curve
  value there is \<open>0\<close>, and \<open>error_high\<close> is \<open>0 - 0.5\<close>, a negative number.
\<close>

theorem error_high_negative:
  "map_sum id error_high (fst (extrapolate_neuroid example_externals ''subject'' 1 [] example_ceilings))
     = Inr (Some (- (1 / 2)))"
  by (simp only: example_neuroid_score map_sum.simps neuroid_score.simps)

text \<open>
  Claim C7.  When \<open>extrapolate_neuroid\<close> returns a Score, the pairs attached to it are the
  successfully fitted ones, and the \<open>endpoint_x\<close> attached to it is the smallest \<open>x\<close> of the
  grid at which the forward difference of the per-\<open>x\<close> median of the fitted curves is below
  \<open>0.0005\<close>; and whenever the fitted pairs have such an \<open>x\<close>, a Score is returned.
\<close>

theorem endpoint_is_first_flat_x:
  assumes "fitted_params ext col nb ceilings = Inr params"
    and "\<forall>(bootstrap, v0, tau0) \<in> set params. tau0 \<noteq> 0"
  shows "(\<forall>score. fst (extrapolate_neuroid ext col nb world ceilings) = Inr score \<longrightarrow>
            bootstrapped_params score = params
          \<and> endpoint_x score < 999
          \<and> forward_difference params (endpoint_x score) < 5 / 10000
          \<and> (\<forall>x < endpoint_x score. \<not> forward_difference params x < 5 / 10000))
     \<and> (\<forall>x. params \<noteq> [] \<and> x < 999 \<and> forward_difference params x < 5 / 10000
            \<and> (\<forall>x' < x. \<not> forward_difference params x' < 5 / 10000) \<longrightarrow>
            (\<exists>score. fst (extrapolate_neuroid ext col nb world ceilings) = Inr score
               \<and> endpoint_x score = x))
     \<and> (\<forall>x. forward_difference params x
            = median (curve_values params (x + 1)) - median (curve_values params x))"
proof -
  have fst_eq: "fst (extrapolate_neuroid ext col nb world ceilings) = find_endpoint_and_error ceilings params"
    using assms(1) by (simp add: extrapolate_neuroid_fst)
  have one: "bootstrapped_params score = params
          \<and> endpoint_x score < 999
          \<and> forward_difference params (endpoint_x score) < 5 / 10000
          \<and> (\<forall>x < endpoint_x score. \<not> forward_difference params x < 5 / 10000)"
    if "fst (extrapolate_neuroid ext col nb world ceilings) = Inr score" for score
  proof -
    from that fst_eq have f: "find_endpoint_and_error ceilings params = Inr score" by simp
    from find_endpoint_and_error_cases [OF f]
    have "end_x params = Inr (endpoint_x score)" "bootstrapped_params score = params" by simp_all
    then show ?thesis by (simp add: end_x_Inr asymptote_threshold_def)
  qed
  have two: "\<exists>score. fst (extrapolate_neuroid ext col nb world ceilings) = Inr score
               \<and> endpoint_x score = x"
    if h: "params \<noteq> [] \<and> x < 999 \<and> forward_difference params x < 5 / 10000
            \<and> (\<forall>x' < x. \<not> forward_difference params x' < 5 / 10000)" for x
  proof -
    from h have e: "end_x params = Inr x" by (simp add: end_x_Inr asymptote_threshold_def)
    from h have ne: "params \<noteq> []" by simp
    show ?thesis
      using find_endpoint_and_error_endpoint [OF ne e, of ceilings] fst_eq by simp
  qed
  have three: "forward_difference params x
            = median (curve_values params (x + 1)) - median (curve_values params x)" for x
    by (simp add: forward_difference_def median_curve_def curve_values_def)
  show ?thesis
    apply (intro conjI allI impI)
    subgoal for score using one [of score] by simp
    subgoal for score using one [of score] by simp
    subgoal for score using one [of score] by simp
    subgoal for score using one [of score] by simp
    subgoal for x by (erule two)
    subgoal for x by (rule three)
    done
qed

theorem endpoint_is_first_flat_x_witness:
  "fitted_params example_externals ''subject'' 1 example_ceilings = Inr [(0, 1 / 2, 10000)]
   \<and> forward_difference [(0, 1 / 2, 10000)] 0 < 5 / 10000
   \<and> (\<exists>score. fst (extrapolate_neuroid example_externals ''subject'' 1 [] example_ceilings) = Inr score
         \<and> endpoint_x score = 0 \<and> bootstrapped_params score = [(0, 1 / 2, 10000)])"
proof -
  have t: "\<forall>(bootstrap, v0, tau0) \<in> set [(0 :: nat, 1 / 2 :: real, 10000 :: real)]. tau0 \<noteq> 0"
    by simp
  note T = endpoint_is_first_flat_x [OF example_fitted_params t, of "[]"]
  have d: "forward_difference [(0, 1 / 2, 10000)] 0 < 5 / 10000"
    using example_end_x by (simp add: end_x_Inr asymptote_threshold_def)
  then have h: "[(0 :: nat, 1 / 2 :: real, 10000 :: real)] \<noteq> [] \<and> (0 :: nat) < 999
      \<and> forward_difference [(0, 1 / 2, 10000)] 0 < 5 / 10000
      \<and> (\<forall>x' < 0. \<not> forward_difference [(0, 1 / 2, 10000)] x' < 5 / 10000)"
    by simp
  from T [THEN conjunct2, THEN conjunct1, rule_format, OF h]
  obtain score where s: "fst (extrapolate_neuroid example_externals ''subject'' 1 [] example_ceilings) = Inr score"
    and e: "endpoint_x score = 0" by blast
  from T [THEN conjunct1, rule_format, OF s] have "bootstrapped_params score = [(0, 1 / 2, 10000)]"
    by simp
  with s e example_fitted_params d show ?thesis by blast
qed

section \<open>Properties of the loop over the neuroids\<close>

lemma extrapolate_neuroid_result:
  "fst (extrapolate_neuroid ext col nb world (squeeze (neuroid_table u))) = neuroid_result ext col nb u"
  by (simp add: extrapolate_neuroid_fst neuroid_result_def)

lemma extrapolate_neuroid_world:
  "snd (extrapolate_neuroid ext col nb world c) =
     (if ''num_subjects'' \<notin> set (table_dims c) then world
      else world @ [snd (bootstrap_loop ext col c (sort (remdups (num_subjects_values c)))
                           [0 ..< nb] (RandomState ext 0) [])])"
  by (simp add: extrapolate_neuroid_def Let_def split: prod.splits sum.splits)

lemma extrapolate_loop_Cons:
  "fst (extrapolate_loop ext col nb (u # rest) world acc) =
     (case neuroid_result ext col nb u of
        Inr sc \<Rightarrow>
          fst (extrapolate_loop ext col nb rest
                 (snd (extrapolate_neuroid ext col nb world (squeeze (neuroid_table u))))
                 (fst acc @ [add_neuroid_meta (score_array sc) u],
                  fst (snd acc) @ [add_neuroid_meta (params_array sc) u],
                  snd (snd acc) @ [add_neuroid_meta (endpoint_array sc) u]))
      | Inl e \<Rightarrow>
          if is_KeyError e
          then fst (extrapolate_loop ext col nb rest
                      (snd (extrapolate_neuroid ext col nb world (squeeze (neuroid_table u)))) acc)
          else Inl e)"
proof -
  obtain r w where rw: "extrapolate_neuroid ext col nb world (squeeze (neuroid_table u)) = (r, w)"
    by (cases "extrapolate_neuroid ext col nb world (squeeze (neuroid_table u))")
  then have r: "neuroid_result ext col nb u = r"
    using extrapolate_neuroid_result [of ext col nb world u] by simp
  show ?thesis
    using rw r by (cases r; cases acc) (auto split: prod.splits)
qed

lemma extrapolate_loop_world:
  "fst (extrapolate_loop ext col nb units w1 acc) = fst (extrapolate_loop ext col nb units w2 acc)"
proof (induction units arbitrary: w1 w2 acc)
  case Nil
  show ?case by simp
next
  case (Cons u units)
  show ?case
    unfolding extrapolate_loop_Cons
    by (auto split: sum.splits intro: Cons.IH)
qed


lemma extrapolate_loop_abort:
  assumes "neuroid_result ext col nb u = Inl e" and "\<not> is_KeyError e"
  shows "\<exists>e'. fst (extrapolate_loop ext col nb (pre @ u # post) world acc) = Inl e'"
proof (induction pre arbitrary: world acc)
  case Nil
  show ?case
    using assms by (simp add: extrapolate_loop_Cons del: extrapolate_loop.simps)
next
  case (Cons p pre)
  show ?case
    using Cons.IH
    by (simp add: extrapolate_loop_Cons del: extrapolate_loop.simps split: sum.splits)
qed

lemma extrapolate_loop_abort_first:
  assumes "neuroid_result ext col nb u = Inl e" and "\<not> is_KeyError e"
    and "\<forall>p \<in> set pre. \<forall>e'. neuroid_result ext col nb p = Inl e' \<longrightarrow> is_KeyError e'"
  shows "fst (extrapolate_loop ext col nb (pre @ u # post) world acc) = Inl e"
  using assms(3)
proof (induction pre arbitrary: world acc)
  case Nil
  show ?case
    using assms(1,2) by (simp add: extrapolate_loop_Cons del: extrapolate_loop.simps)
next
  case (Cons p pre)
  then have rest: "\<forall>p \<in> set pre. \<forall>e'. neuroid_result ext col nb p = Inl e' \<longrightarrow> is_KeyError e'"
    and here: "\<forall>e'. neuroid_result ext col nb p = Inl e' \<longrightarrow> is_KeyError e'" by simp_all
  show ?case
    using Cons.IH [OF rest] here
    by (simp add: extrapolate_loop_Cons del: extrapolate_loop.simps split: sum.splits)
qed

lemma extrapolate_loop_all_skipped:
  assumes "\<forall>u \<in> set units. \<exists>e. neuroid_result ext col nb u = Inl e \<and> is_KeyError e"
  shows "fst (extrapolate_loop ext col nb units world acc) = Inr acc"
  using assms
proof (induction units arbitrary: world acc)
  case Nil
  show ?case by simp
next
  case (Cons u units)
  then obtain e where "neuroid_result ext col nb u = Inl e" "is_KeyError e" by auto
  moreover have "\<forall>u \<in> set units. \<exists>e. neuroid_result ext col nb u = Inl e \<and> is_KeyError e"
    using Cons.prems by simp
  ultimately show ?case
    using Cons.IH by (simp add: extrapolate_loop_Cons del: extrapolate_loop.simps)
qed

lemma extrapolate_fst:
  "fst (extrapolate ext col nb world units) =
     (case fst (extrapolate_loop ext col nb units world ([], [], [])) of
        Inl e \<Rightarrow> Inl e
      | Inr (neuroid_ceilings, bootstrap_params, endpoint_xs) \<Rightarrow>
          (case merge neuroid_ceilings ''neuroid'' of
             Inl e \<Rightarrow> Inl e
           | Inr neuroid_ceilings \<Rightarrow>
               (case merge bootstrap_params ''neuroid'' of
                  Inl e \<Rightarrow> Inl e
                | Inr bootstrap_params \<Rightarrow>
                    (case merge endpoint_xs ''neuroid'' of
                       Inl e \<Rightarrow> Inl e
                     | Inr endpoint_xs \<Rightarrow>
                         Inr (aggregate_neuroid_ceilings neuroid_ceilings bootstrap_params
                                endpoint_xs)))))"
  by (simp add: extrapolate_def split: prod.splits sum.splits)

lemma neuroid_result_no_params:
  "fitted_params ext col nb (squeeze (neuroid_table u)) = Inr [] \<Longrightarrow>
   neuroid_result ext col nb u = Inl (KeyError ''z'')"
  by (simp add: neuroid_result_def find_endpoint_and_error_empty)

lemma merge_Nil: "merge [] on = Inl (IndexError ''tuple index out of range'')"
  by (simp add: merge_def)

lemma only_unfit_neuroid_raises:
  assumes "fitted_params ext col nb (squeeze (neuroid_table u)) = Inr []"
  shows "fst (extrapolate ext col nb world [u]) = Inl (IndexError ''tuple index out of range'')"
proof -
  have r: "neuroid_result ext col nb u = Inl (KeyError ''z'')"
    using assms by (rule neuroid_result_no_params)
  have "\<forall>p \<in> set [u]. \<exists>e. neuroid_result ext col nb p = Inl e \<and> is_KeyError e"
    using r by simp
  then have "fst (extrapolate_loop ext col nb [u] world ([], [], [])) = Inr ([], [], [])"
    by (rule extrapolate_loop_all_skipped)
  then show ?thesis
    by (simp add: extrapolate_fst merge_Nil)
qed









lemma growing_fitted_params:
  "fitted_params growing_externals ''subject'' 1 (squeeze (neuroid_table example_neuroid)) = Inr [(0, 3, 1000)]"
  by (simp add: fitted_params_def table_dims_def squeeze_def growing_externals_def
      example_neuroid_def example_ceilings_def bootstrapped_score_def fit_def sub_axis_def
      np_mean_def mean_def)

lemma growing_forward_difference:
  assumes "x < 999"
  shows "\<not> forward_difference [(0, 3, 1000)] x < 5 / 10000"
proof -
  define a where "a = exp (- real x / 1000)"
  define b where "b = exp (- 1 / 1000 :: real)"
  have "- real (x + 1) / 1000 = - real x / 1000 + (- 1 / 1000)"
    by (simp add: field_simps)
  then have ab: "exp (- real (x + 1) / 1000) = a * b"
    unfolding a_def b_def by (simp only: exp_add)
  have fd: "forward_difference [(0, 3, 1000)] x = 3 * a * (1 - b)"
    unfolding forward_difference_def median_curve_def
    by (simp only: list.map prod.case median_single v_def ab a_def [symmetric]) (simp add: algebra_simps)
  have "exp (- 1 :: real) \<le> a"
    unfolding a_def using assms by simp
  moreover have "1 / 3 \<le> exp (- 1 :: real)"
  proof -
    have "exp (1 :: real) * exp (- 1) \<le> 3 * exp (- 1)"
      by (intro mult_right_mono exp_le) simp
    moreover have "exp (1 :: real) * exp (- 1) = 1"
      by (simp add: exp_minus)
    ultimately show ?thesis by simp
  qed
  ultimately have a: "1 / 3 \<le> a" by simp
  have e: "1 + 1 / 1000 \<le> exp (1 / 1000 :: real)"
    by (rule exp_ge_add_one_self)
  have "exp (1 / 1000 :: real) * b = 1"
    unfolding b_def by (simp add: exp_minus)
  moreover have "(1 + 1 / 1000) * b \<le> exp (1 / 1000 :: real) * b"
    using e by (intro mult_right_mono) (simp_all add: b_def)
  ultimately have "b \<le> 1000 / 1001"
    by simp
  then have b: "1 / 1001 \<le> 1 - b" by simp
  have "1 / 3 * (1 / 1001) \<le> a * (1 - b)"
    using a b by (intro mult_mono) simp_all
  then show ?thesis
    unfolding fd by simp
qed

text \<open>
  Claim C10.  When the fitted pairs of a neuroid have no \<open>x\<close> on the grid whose forward
  difference of the median curve is below \<open>0.0005\<close>, the minimum of the empty index array
  raises \<open>ValueError\<close> in \<open>extrapolate_neuroid\<close>; the handler of \<open>extrapolate\<close> catches
  \<open>KeyError\<close> only, so \<open>extrapolate\<close> raises as well (that \<open>ValueError\<close>, unless an earlier
  neuroid has raised another exception that is not caught) instead of skipping the neuroid.
\<close>

theorem no_endpoint_aborts:
  assumes "fitted_params ext col nb (squeeze (neuroid_table u)) = Inr params"
    and "params \<noteq> []"
    and "\<forall>(bootstrap, v0, tau0) \<in> set params. tau0 \<noteq> 0"
    and "\<forall>x < 999. \<not> forward_difference params x < 5 / 10000"
  shows "fst (extrapolate_neuroid ext col nb world (squeeze (neuroid_table u)))
           = Inl (ValueError ''zero-size array to reduction operation minimum which has no identity'')
     \<and> \<not> is_KeyError (ValueError ''zero-size array to reduction operation minimum which has no identity'')
     \<and> (\<exists>e. fst (extrapolate ext col nb world (pre @ u # post)) = Inl e)
     \<and> ((\<forall>p \<in> set pre. \<forall>e. neuroid_result ext col nb p = Inl e \<longrightarrow> is_KeyError e) \<longrightarrow>
           fst (extrapolate ext col nb world (pre @ u # post))
             = Inl (ValueError ''zero-size array to reduction operation minimum which has no identity''))"
proof -
  let ?VE = "ValueError ''zero-size array to reduction operation minimum which has no identity''"
  have "\<exists>e. end_x params = Inl e"
    using assms(4) by (simp add: end_x_Inl asymptote_threshold_def)
  then obtain e where e: "end_x params = Inl e" by blast
  then have "e = ?VE" by (rule end_x_Inl_ValueError)
  with e have "find_endpoint_and_error (squeeze (neuroid_table u)) params = Inl ?VE"
    using find_endpoint_and_error_no_endpoint [OF assms(2)] by simp
  then have r: "neuroid_result ext col nb u = Inl ?VE"
    using assms(1) by (simp add: neuroid_result_def)
  have nk: "\<not> is_KeyError ?VE" by simp
  have one: "fst (extrapolate_neuroid ext col nb world (squeeze (neuroid_table u))) = Inl ?VE"
    using r by (simp only: extrapolate_neuroid_result)
  obtain e' where "fst (extrapolate_loop ext col nb (pre @ u # post) world ([], [], [])) = Inl e'"
    using extrapolate_loop_abort [OF r nk] by blast
  then have two: "\<exists>e. fst (extrapolate ext col nb world (pre @ u # post)) = Inl e"
    by (simp add: extrapolate_fst)
  have three: "fst (extrapolate ext col nb world (pre @ u # post)) = Inl ?VE"
    if h: "\<forall>p \<in> set pre. \<forall>e. neuroid_result ext col nb p = Inl e \<longrightarrow> is_KeyError e"
  proof -
    have "fst (extrapolate_loop ext col nb (pre @ u # post) world ([], [], [])) = Inl ?VE"
      by (rule extrapolate_loop_abort_first [OF r nk h])
    then show ?thesis by (simp add: extrapolate_fst)
  qed
  show ?thesis
    apply (intro conjI impI)
    subgoal by (rule one)
    subgoal by (rule nk)
    subgoal by (rule two)
    subgoal by (erule three)
    done
qed

theorem no_endpoint_aborts_witness:
  "fitted_params growing_externals ''subject'' 1 (squeeze (neuroid_table example_neuroid)) = Inr [(0, 3, 1000)]
   \<and> \<not> forward_difference [(0, 3, 1000)] 0 < 5 / 10000
   \<and> \<not> forward_difference [(0, 3, 1000)] 998 < 5 / 10000
   \<and> fst (extrapolate_neuroid growing_externals ''subject'' 1 [] (squeeze (neuroid_table example_neuroid)))
       = Inl (ValueError ''zero-size array to reduction operation minimum which has no identity'')
   \<and> fst (extrapolate growing_externals ''subject'' 1 [] [example_neuroid, unfit_neuroid])
       = Inl (ValueError ''zero-size array to reduction operation minimum which has no identity'')"
proof -
  have ne: "[(0 :: nat, 3 :: real, 1000 :: real)] \<noteq> []" by simp
  have t: "\<forall>(bootstrap, v0, tau0) \<in> set [(0 :: nat, 3 :: real, 1000 :: real)]. tau0 \<noteq> 0" by simp
  have g: "\<forall>x < 999. \<not> forward_difference [(0, 3, 1000)] x < 5 / 10000"
    using growing_forward_difference by blast
  note T = no_endpoint_aborts [OF growing_fitted_params ne t g, of "[]" "[]" "[unfit_neuroid]"]
  have pre: "\<forall>p \<in> set []. \<forall>e. neuroid_result growing_externals ''subject'' 1 p = Inl e \<longrightarrow> is_KeyError e"
    by simp
  have one: "fst (extrapolate_neuroid growing_externals ''subject'' 1 [] (squeeze (neuroid_table example_neuroid)))
       = Inl (ValueError ''zero-size array to reduction operation minimum which has no identity'')"
    using T [THEN conjunct1] .
  have three: "fst (extrapolate growing_externals ''subject'' 1 [] ([] @ example_neuroid # [unfit_neuroid]))
       = Inl (ValueError ''zero-size array to reduction operation minimum which has no identity'')"
    using T [THEN conjunct2, THEN conjunct2, THEN conjunct2, THEN mp, OF pre] .
  have g0: "\<not> forward_difference [(0, 3, 1000)] 0 < 5 / 10000"
    and g998: "\<not> forward_difference [(0, 3, 1000)] 998 < 5 / 10000"
    using g by simp_all
  show ?thesis
    using growing_fitted_params g0 g998 one three by simp
qed

section \<open>Properties of the collection\<close>








section \<open>Reproducibility\<close>

text \<open>
  Claim C8.  The extrapolation of a neuroid creates its own generator with seed \<open>0\<close> and
  draws from nothing else: the loop starts from \<open>RandomState 0\<close>, the generators that
  exist when the function is entered are neither read nor changed, and so two runs on the
  same table with the same configuration, whatever generators exist and whatever state
  they are in, give the same result and leave the new generator in the same state.  (When
  the table has no \<open>num_subjects\<close> axis the function raises before it creates a generator,
  in both runs alike.)  The same holds for \<open>extrapolate\<close> over all neuroids.
\<close>

theorem extrapolation_reproducible:
  "fst (extrapolate_neuroid ext col nb w1 c) = fst (extrapolate_neuroid ext col nb w2 c)
   \<and> fst (extrapolate_neuroid ext col nb w1 c) =
       (if ''num_subjects'' \<notin> set (table_dims c) then Inl (TypeError ''iteration over a 0-d array'')
        else case fst (bootstrap_loop ext col c (sort (remdups (num_subjects_values c)))
                         [0 ..< nb] (RandomState ext 0) []) of
               Inl e \<Rightarrow> Inl e
             | Inr params \<Rightarrow> find_endpoint_and_error c params)
   \<and> snd (extrapolate_neuroid ext col nb w1 c) =
       (if ''num_subjects'' \<notin> set (table_dims c) then w1
        else w1 @ [snd (bootstrap_loop ext col c (sort (remdups (num_subjects_values c)))
                          [0 ..< nb] (RandomState ext 0) [])])
   \<and> take (length w1) (snd (extrapolate_neuroid ext col nb w1 c)) = w1
   \<and> drop (length w1) (snd (extrapolate_neuroid ext col nb w1 c))
       = drop (length w2) (snd (extrapolate_neuroid ext col nb w2 c))
   \<and> fst (extrapolate ext col nb w1 units) = fst (extrapolate ext col nb w2 units)"
proof -
  have one: "fst (extrapolate_neuroid ext col nb w1 c) = fst (extrapolate_neuroid ext col nb w2 c)"
    by (simp only: extrapolate_neuroid_fst)
  have two: "fst (extrapolate_neuroid ext col nb w1 c) =
       (if ''num_subjects'' \<notin> set (table_dims c) then Inl (TypeError ''iteration over a 0-d array'')
        else case fst (bootstrap_loop ext col c (sort (remdups (num_subjects_values c)))
                         [0 ..< nb] (RandomState ext 0) []) of
               Inl e \<Rightarrow> Inl e
             | Inr params \<Rightarrow> find_endpoint_and_error c params)"
    by (simp add: extrapolate_neuroid_fst fitted_params_def)
  have three: "snd (extrapolate_neuroid ext col nb w c) =
       (if ''num_subjects'' \<notin> set (table_dims c) then w
        else w @ [snd (bootstrap_loop ext col c (sort (remdups (num_subjects_values c)))
                          [0 ..< nb] (RandomState ext 0) [])])" for w
    by (rule extrapolate_neuroid_world)
  have four: "take (length w1) (snd (extrapolate_neuroid ext col nb w1 c)) = w1"
    by (simp add: three)
  have five: "drop (length w1) (snd (extrapolate_neuroid ext col nb w1 c))
       = drop (length w2) (snd (extrapolate_neuroid ext col nb w2 c))"
    by (simp add: three)
  have "fst (extrapolate_loop ext col nb units w1 ([], [], []))
      = fst (extrapolate_loop ext col nb units w2 ([], [], []))"
    by (rule extrapolate_loop_world)
  then have six: "fst (extrapolate ext col nb w1 units) = fst (extrapolate ext col nb w2 units)"
    by (simp only: extrapolate_fst)
  show ?thesis
    using one two three [of w1] four five six by (intro conjI)
qed

section \<open>Fits within the bounds always have an endpoint\<close>

text \<open>
  \<open>fit\<close> passes the bounds \<open>0 \<le> v0 \<le> 1\<close> to \<open>curve_fit\<close>.  When every fitted pair lies
  within them (and \<open>tau0 \<noteq> 0\<close>), each curve rises by less than \<open>1 / (2.1 * 998)\<close> in the
  last step of the grid, so does the median curve, and the endpoint search finds an index:
  the \<open>ValueError\<close> of the empty index array then needs a fit outside the bounds.
\<close>

lemma count_le_sorted_lower:
  assumes "sorted s" and "k < length s"
  shows "k + 1 \<le> length (filter (\<lambda>x. x \<le> s ! k) s)"
proof -
  have "\<forall>x \<in> set (take (k + 1) s). x \<le> s ! k"
  proof
    fix x
    assume "x \<in> set (take (k + 1) s)"
    then obtain i where "i < k + 1" "i < length s" "x = s ! i"
      by (auto simp: in_set_conv_nth)
    then show "x \<le> s ! k"
      using assms sorted_nth_mono [of s i k] by simp
  qed
  then have "filter (\<lambda>x. x \<le> s ! k) (take (k + 1) s) = take (k + 1) s"
    by (simp add: filter_id_conv)
  moreover have "filter (\<lambda>x. x \<le> s ! k) s
      = filter (\<lambda>x. x \<le> s ! k) (take (k + 1) s) @ filter (\<lambda>x. x \<le> s ! k) (drop (k + 1) s)"
    by (metis append_take_drop_id filter_append)
  ultimately have "length (filter (\<lambda>x. x \<le> s ! k) s)
      = length (take (k + 1) s) + length (filter (\<lambda>x. x \<le> s ! k) (drop (k + 1) s))"
    by simp
  then show ?thesis using assms(2) by simp
qed

lemma count_le_sorted_upper:
  assumes "sorted s" and "k < length s" and "t < s ! k"
  shows "length (filter (\<lambda>x. x \<le> t) s) \<le> k"
proof -
  have "\<forall>x \<in> set (drop k s). \<not> x \<le> t"
  proof
    fix x
    assume "x \<in> set (drop k s)"
    then obtain i where "i < length s - k" "x = s ! (k + i)"
      by (auto simp: in_set_conv_nth)
    then have "s ! k \<le> x"
      using assms(1) sorted_nth_mono [of s k "k + i"] by simp
    with assms(3) show "\<not> x \<le> t" by simp
  qed
  then have "filter (\<lambda>x. x \<le> t) (drop k s) = []"
    by (simp add: filter_empty_conv)
  moreover have "filter (\<lambda>x. x \<le> t) s
      = filter (\<lambda>x. x \<le> t) (take k s) @ filter (\<lambda>x. x \<le> t) (drop k s)"
    by (metis append_take_drop_id filter_append)
  ultimately have "length (filter (\<lambda>x. x \<le> t) s) = length (filter (\<lambda>x. x \<le> t) (take k s))"
    by simp
  also have "\<dots> \<le> length (take k s)" by (rule length_filter_le)
  finally show ?thesis by simp
qed

lemma count_le_shift:
  "list_all2 (\<lambda>a b. a \<le> b + c) as bs \<Longrightarrow>
   length (filter (\<lambda>b. b \<le> t) bs) \<le> length (filter (\<lambda>a. a \<le> t + c) as)"
  for c t :: real
  by (induction as bs rule: list_all2_induct) auto

lemma sort_nth_shift_mono:
  fixes c :: real
  assumes "list_all2 (\<lambda>a b. a \<le> b + c) as bs" and "k < length as"
  shows "sort as ! k \<le> sort bs ! k + c"
proof (rule ccontr)
  assume "\<not> sort as ! k \<le> sort bs ! k + c"
  then have less: "sort bs ! k + c < sort as ! k" by simp
  have len: "length bs = length as"
    using assms(1) by (simp add: list_all2_lengthD)
  have "k + 1 \<le> length (filter (\<lambda>x. x \<le> sort bs ! k) (sort bs))"
    using count_le_sorted_lower [of "sort bs" k] assms(2) len by simp
  also have "\<dots> = length (filter (\<lambda>x. x \<le> sort bs ! k) bs)"
    by (simp add: filter_sort)
  also have "\<dots> \<le> length (filter (\<lambda>a. a \<le> sort bs ! k + c) as)"
    using assms(1) by (rule count_le_shift)
  also have "\<dots> = length (filter (\<lambda>a. a \<le> sort bs ! k + c) (sort as))"
    by (simp add: filter_sort)
  also have "\<dots> \<le> k"
    using count_le_sorted_upper [of "sort as" k "sort bs ! k + c"] assms(2) less by simp
  finally show False by simp
qed

lemma median_shift_mono:
  fixes c :: real
  assumes "list_all2 (\<lambda>a b. a \<le> b + c) as bs" and "as \<noteq> []"
  shows "median as \<le> median bs + c"
proof -
  have len: "length bs = length as"
    using assms(1) by (simp add: list_all2_lengthD)
  have pos: "0 < length as" using assms(2) by simp
  have n: "sort as ! k \<le> sort bs ! k + c" if "k < length as" for k
    using sort_nth_shift_mono [OF assms(1) that] .
  show ?thesis
  proof (cases "odd (length as)")
    case True
    then show ?thesis
      using n [of "length as div 2"] pos len by (simp add: median_def)
  next
    case False
    have "length as div 2 < length as" "length as div 2 - 1 < length as"
      using pos by arith+
    then have "sort as ! (length as div 2) \<le> sort bs ! (length as div 2) + c"
      "sort as ! (length as div 2 - 1) \<le> sort bs ! (length as div 2 - 1) + c"
      using n by blast+
    then show ?thesis
      using False len by (simp add: median_def Let_def field_simps)
  qed
qed

lemma v_step_bound:
  assumes "0 \<le> v0" and "v0 \<le> 1" and "tau0 \<noteq> 0"
  shows "v 999 v0 tau0 \<le> v 998 v0 tau0 + 10 / 20958"
proof (cases "0 < tau0")
  case False
  with assms(3) have neg: "tau0 < 0" by simp
  then have "- 998 / tau0 \<le> - 999 / tau0"
    by (simp add: field_simps)
  then have "exp (- 998 / tau0) \<le> exp (- 999 / tau0)" by simp
  then have "v0 * (1 - exp (- 999 / tau0)) \<le> v0 * (1 - exp (- 998 / tau0))"
    using assms(1) by (intro mult_left_mono) simp_all
  then show ?thesis by (simp add: v_def)
next
  case True
  define t where "t = 1 / tau0"
  have t: "0 < t" using True by (simp add: t_def)
  define u where "u = 998 * t"
  have u: "0 < u" using t by (simp add: u_def)
  have e998: "exp (- 998 / tau0) = exp (- u)" by (simp add: u_def t_def)
  have "- 999 / tau0 = - u + (- t)" by (simp add: u_def t_def field_simps)
  then have e999: "exp (- 999 / tau0) = exp (- u) * exp (- t)"
    by (simp only: exp_add)
  have step: "v 999 v0 tau0 - v 998 v0 tau0 = v0 * (exp (- u) * (1 - exp (- t)))"
    unfolding v_def e998 e999 by (simp add: algebra_simps)
  have "1 + (- t) \<le> exp (- t)" by (rule exp_ge_add_one_self)
  then have a: "1 - exp (- t) \<le> t" by simp
  have "1 + u + u\<^sup>2 / 2 \<le> exp u"
    using u by (intro exp_lower_Taylor_quadratic) simp
  moreover have "21 / 10 * u \<le> 1 + u + u\<^sup>2 / 2"
  proof -
    have "0 \<le> (u - 11 / 10)\<^sup>2" by simp
    then show ?thesis by (simp add: power2_eq_square algebra_simps)
  qed
  ultimately have big: "21 / 10 * u \<le> exp u" by simp
  have "exp (- u) * (21 / 10 * u) \<le> exp (- u) * exp u"
    using big by (intro mult_left_mono) simp_all
  also have "\<dots> = 1" by (simp add: exp_minus)
  finally have b: "exp (- u) * u \<le> 10 / 21" by simp
  have "exp (- u) * (1 - exp (- t)) \<le> exp (- u) * t"
    using a by (intro mult_left_mono) simp_all
  also have "\<dots> = exp (- u) * u / 998" by (simp add: u_def)
  also have "\<dots> \<le> 10 / 21 / 998" using b by (simp add: mult.commute)
  finally have c: "exp (- u) * (1 - exp (- t)) \<le> 10 / 20958" by simp
  have nonneg: "0 \<le> exp (- u) * (1 - exp (- t))"
    using t by (intro mult_nonneg_nonneg) simp_all
  have "v0 * (exp (- u) * (1 - exp (- t))) \<le> 1 * (10 / 20958)"
    using assms(1,2) c nonneg by (intro mult_mono) simp_all
  with step show ?thesis by simp
qed

lemma endpoint_exists_within_bounds:
  assumes "params \<noteq> []"
    and "\<forall>(bootstrap, v0, tau0) \<in> set params. 0 \<le> v0 \<and> v0 \<le> 1 \<and> tau0 \<noteq> 0"
  shows "forward_difference params 998 < asymptote_threshold"
    and "\<exists>e. end_x params = Inr e"
proof -
  have "v 999 v0 tau0 \<le> v 998 v0 tau0 + 10 / 20958"
    if "(bootstrap, v0, tau0) \<in> set params" for bootstrap v0 tau0
    using assms(2) that by (intro v_step_bound) auto
  then have "list_all2 (\<lambda>a b. a \<le> b + 10 / 20958)
          (map (\<lambda>(bootstrap, v0, tau0). v (real (998 + 1)) v0 tau0) params)
          (map (\<lambda>(bootstrap, v0, tau0). v (real 998) v0 tau0) params)"
    by (auto simp: list_all2_map1 list_all2_map2 list_all2_same)
  then have "median_curve params (998 + 1) \<le> median_curve params 998 + 10 / 20958"
    unfolding median_curve_def using assms(1) by (intro median_shift_mono) simp_all
  then show fd: "forward_difference params 998 < asymptote_threshold"
    by (simp add: forward_difference_def asymptote_threshold_def)
  have "(998 :: nat) < 999" by simp
  with fd have "\<exists>x < 999. forward_difference params x < asymptote_threshold"
    by blast
  then have "\<not> (\<forall>x < 999. \<not> forward_difference params x < asymptote_threshold)"
    by blast
  then have "\<not> (\<exists>e. end_x params = Inl e)"
    using end_x_Inl [of params] by blast
  then show "\<exists>e. end_x params = Inr e"
    by (cases "end_x params") auto
qed

end
